theory Spec2Isabelle
  imports Complex_Main "HOL-Library.Sublist"
begin

section \<open>Data model\<close>

text \<open>
  The wire shapes of \<^verbatim>\<open>App.tsx\<close> (\<^verbatim>\<open>interface Node\<close>, \<^verbatim>\<open>interface Edge\<close>):
  a node is \<^verbatim>\<open>{id, data: {label}, position: {x, y}}\<close>, an edge is
  \<^verbatim>\<open>{id, source, target, data?: {label}}\<close>. JavaScript numbers are modelled as reals;
  no property below depends on their rounding.
\<close>

record position =
  pos_x :: real
  pos_y :: real

record node =
  n_id :: string
  n_label :: string
  n_position :: position

record edge =
  e_id :: string
  e_source :: string
  e_target :: string
  e_label :: "string option"

text \<open>
  A graph as it travels over HTTP (\<^verbatim>\<open>{ nodes, edges }\<close>): either key may be absent from
  the JSON object, which JavaScript reads as \<^verbatim>\<open>undefined\<close>.
\<close>

record graphData =
  gd_nodes :: "node list option"
  gd_edges :: "edge list option"

section \<open>The working graph of the browser (App.tsx)\<close>

text \<open>The React state of \<^verbatim>\<open>App\<close>: one field per \<^verbatim>\<open>useState\<close>.\<close>

record app_state =
  nodes :: "node list"
  edges :: "edge list"
  selectedNode :: "node option"
  isLoading :: bool
  error :: "string option"
  viewMode :: string

text \<open>
  \<^verbatim>\<open>(newNodes || []).forEach(newNode => { if (!existingNodeIds.has(newNode.id))
  updatedNodes.push(newNode); })\<close>: the loop of \<^verbatim>\<open>handleExpandNode\<close>, with the array
  being pushed to as accumulator. The set of existing ids is computed once, before the
  loop, and is not extended by the pushes.
\<close>

fun forEach_push :: "('a \<Rightarrow> string) \<Rightarrow> string set \<Rightarrow> 'a list \<Rightarrow> 'a list \<Rightarrow> 'a list" where
  "forEach_push ident existingIds updated [] = updated"
| "forEach_push ident existingIds updated (x # xs) =
     forEach_push ident existingIds
       (if ident x \<notin> existingIds then updated @ [x] else updated) xs"

text \<open>\<^verbatim>\<open>x || []\<close> on a value that is an array or \<^verbatim>\<open>undefined\<close>.\<close>

definition or_empty :: "'a list option \<Rightarrow> 'a list" where
  "or_empty xs = (case xs of None \<Rightarrow> [] | Some ys \<Rightarrow> ys)"

definition updatedNodes :: "node list \<Rightarrow> node list option \<Rightarrow> node list" where
  "updatedNodes nds newNodes =
     forEach_push n_id (set (map n_id nds)) nds (or_empty newNodes)"

definition updatedEdges :: "edge list \<Rightarrow> edge list option \<Rightarrow> edge list" where
  "updatedEdges eds newEdges =
     forEach_push e_id (set (map e_id eds)) eds (or_empty newEdges)"

text \<open>
  The merge step of \<^verbatim>\<open>handleExpandNode\<close> (from \<^verbatim>\<open>const updatedNodes = [...nodes]\<close> to
  the end of the second \<^verbatim>\<open>forEach\<close>) as one function from the working graph and the
  fragment of the response to the merged pair of lists.
\<close>

definition merge :: "node list \<times> edge list \<Rightarrow> graphData \<Rightarrow> node list \<times> edge list" where
  "merge G F = (updatedNodes (fst G) (gd_nodes F), updatedEdges (snd G) (gd_edges F))"

text \<open>
  \<^verbatim>\<open>axios.post('/api/expand', ...)\<close> either rejects (network failure, status outside 2xx)
  or resolves with the response body.
\<close>

datatype axios_result = AxiosRejected | AxiosResolved graphData

text \<open>
  \<^verbatim>\<open>handleExpandNode\<close>. The HTTP exchange and \<^verbatim>\<open>getLayoutedElements\<close> (module
  \<^verbatim>\<open>utils/layout\<close>) are parameters: \<open>post\<close> receives the request body
  \<^verbatim>\<open>{ fullGraph: { nodes, edges }, selectedNodeId }\<close>; the layout receives the merged
  lists and a direction, which this call leaves to its default, \<^verbatim>\<open>TB\<close> according to
  the specification. A failed request leaves the graph as it was and sets the error
  message.
\<close>

definition handleExpandNode ::
  "(node list \<times> edge list \<Rightarrow> string \<Rightarrow> axios_result) \<Rightarrow>
   (node list \<Rightarrow> edge list \<Rightarrow> string \<Rightarrow> node list \<times> edge list) \<Rightarrow>
   app_state \<Rightarrow> string \<Rightarrow> app_state" where
  "handleExpandNode post getLayoutedElements st nodeId =
     (let st1 = st\<lparr>isLoading := True, error := None\<rparr> in
      case post (nodes st, edges st) nodeId of
        AxiosRejected \<Rightarrow>
          st1\<lparr>error := Some ''Failed to expand node. Please try again.'', isLoading := False\<rparr>
      | AxiosResolved data \<Rightarrow>
          (let (mergedNodes, mergedEdges) = merge (nodes st, edges st) data;
               (layoutedNodes, layoutedEdges) = getLayoutedElements mergedNodes mergedEdges ''TB''
           in st1\<lparr>nodes := layoutedNodes, edges := layoutedEdges, isLoading := False\<rparr>))"

text \<open>
  \<^verbatim>\<open>handleDeleteNode\<close>: two \<^verbatim>\<open>filter\<close> calls on the state and the selection cleared.
\<close>

definition handleDeleteNode :: "app_state \<Rightarrow> string \<Rightarrow> app_state" where
  "handleDeleteNode st nodeId =
     st\<lparr>nodes := filter (\<lambda>n. n_id n \<noteq> nodeId) (nodes st),
        edges := filter (\<lambda>e. e_source e \<noteq> nodeId \<and> e_target e \<noteq> nodeId) (edges st),
        selectedNode := None\<rparr>"

section \<open>The server (server.js)\<close>

subsection \<open>The outside world\<close>

text \<open>
  The prompt sent to the model is a fixed template with values spliced in: the topic for
  \<^verbatim>\<open>/api/generate\<close>, the JSON text of the full graph and of the selected node for
  \<^verbatim>\<open>/api/expand\<close>. A prompt is represented by the values spliced into its template.
\<close>

datatype prompt = GeneratePrompt string | ExpandPrompt graphData node

text \<open>
  The Cypher statements of \<^verbatim>\<open>saveGraphToNeo4j\<close> and of \<^verbatim>\<open>/api/neo4j/all\<close> with their
  parameters: \<^verbatim>\<open>MERGE (n:Concept {id: $id}) ... SET n.label = $label, n.embedding =
  $embedding\<close>, \<^verbatim>\<open>MATCH (a:Concept {id: $sourceId}) MATCH (b:Concept {id: $targetId})
  MERGE (a)-[r:RELATES_TO {id: $edgeId, label: $label}]->(b)\<close>, and
  \<^verbatim>\<open>MATCH (n:Concept) OPTIONAL MATCH (n)-[r]->(m:Concept) RETURN n, r, m\<close>.
\<close>

datatype query =
    MergeConcept string string "real list"
  | MergeRelatesTo string string string string
  | MatchAll

text \<open>
  What the load query returns. A \<^verbatim>\<open>:Concept\<close> node carries the properties \<^verbatim>\<open>id\<close> and
  \<^verbatim>\<open>label\<close>; a relationship carries \<^verbatim>\<open>id\<close> and \<^verbatim>\<open>label\<close>, and the handler also
  looks for properties \<^verbatim>\<open>source\<close> and \<^verbatim>\<open>target\<close>, which may be absent. A record is
  the triple \<^verbatim>\<open>(n, r, m)\<close>, with \<^verbatim>\<open>r\<close> and \<^verbatim>\<open>m\<close> null where the optional match found
  nothing.
\<close>

record concept =
  c_id :: string
  c_label :: string

record relationship =
  r_id :: string
  r_label :: string
  r_source :: "string option"
  r_target :: "string option"

type_synonym db_record = "concept \<times> relationship option \<times> concept option"

text \<open>
  What \<^verbatim>\<open>JSON.parse\<close> returns for a text that parses: \<^verbatim>\<open>null\<close>, or a value that is read
  through its keys \<^verbatim>\<open>nodes\<close> and \<^verbatim>\<open>edges\<close>. A value other than \<^verbatim>\<open>null\<close> that has
  neither key (a number, a string, an object without them) reads as a graph with both
  keys absent.
\<close>

datatype parsed = JsonNull | JsonObject graphData

text \<open>
  The collaborators of the server, as oracles: the text the model answers with (\<open>None\<close>
  when the call rejects), \<^verbatim>\<open>JSON.parse\<close> (\<open>None\<close> when it throws), the message of the
  TypeError that the engine throws on \<^verbatim>\<open>null.nodes\<close>, the embedding model (\<open>None\<close> when
  the call rejects), the message of the error with which \<^verbatim>\<open>driver.session()\<close> throws
  and that with which \<^verbatim>\<open>session.close()\<close> rejects (\<open>None\<close> when they succeed), whether
  \<^verbatim>\<open>session.run\<close> of a write statement resolves, the records of the load query (\<open>None\<close>
  when it rejects) and the successive results of \<^verbatim>\<open>Math.random()\<close>. Console output is
  left out.
\<close>

record env =
  llm :: "prompt \<Rightarrow> string option"
  JSON_parse :: "string \<Rightarrow> parsed option"
  null_TypeError :: string
  embed :: "string \<Rightarrow> real list option"
  session_throws :: "string option"
  close_rejects :: "string option"
  run_ok :: "query \<Rightarrow> bool"
  match_all :: "db_record list option"
  random :: "nat \<Rightarrow> real"

text \<open>What a handler sends: \<^verbatim>\<open>res.status(...).json({error})\<close> or \<^verbatim>\<open>res.json(graph)\<close>.\<close>

datatype body = ErrorBody string | GraphBody graphData

text \<open>
  The observable steps of a request, in the order in which the handler performs them.
  Every call of the source is awaited, so a handler is a sequence of steps. \<open>SessionOpen\<close>
  is a session that \<^verbatim>\<open>driver.session()\<close> returned, \<open>SessionClose\<close> the call of
  \<^verbatim>\<open>session.close()\<close>. \<open>Uncaught\<close> stands for an exception that leaves the handler:
  its promise rejects, and the handler sends no response from then on.
\<close>

datatype event =
    GenerateContent prompt
  | EmbedContent string
  | SessionOpen
  | Run query
  | SessionClose
  | Respond nat body
  | Uncaught

subsection \<open>generateGraph, getEmbedding, saveGraphToNeo4j\<close>

text \<open>
  \<^verbatim>\<open>generateGraph\<close>: a rejected call and a text that does not parse both end in the
  \<^verbatim>\<open>catch\<close>, which throws \<^verbatim>\<open>new Error("Failed to generate graph from API.")\<close>. The
  result is the message of the thrown error or the parsed value.
\<close>

definition generateGraph :: "env \<Rightarrow> prompt \<Rightarrow> event list \<times> (string + parsed)" where
  "generateGraph w p =
     ([GenerateContent p],
      case llm w p of
        None \<Rightarrow> Inl ''Failed to generate graph from API.''
      | Some text \<Rightarrow>
          (case JSON_parse w text of
             None \<Rightarrow> Inl ''Failed to generate graph from API.''
           | Some graphData \<Rightarrow> Inr graphData))"

text \<open>\<^verbatim>\<open>getEmbedding\<close>: the \<^verbatim>\<open>catch\<close> returns the empty array.\<close>

definition getEmbedding :: "env \<Rightarrow> string \<Rightarrow> event list \<times> real list" where
  "getEmbedding w text =
     ([EmbedContent text], case embed w text of None \<Rightarrow> [] | Some values \<Rightarrow> values)"

text \<open>
  The first loop of \<^verbatim>\<open>saveGraphToNeo4j\<close>. The flag tells whether the loop ran to its end;
  a \<^verbatim>\<open>session.run\<close> that rejects leaves the loop for the \<^verbatim>\<open>catch\<close>.
\<close>

fun save_nodes :: "env \<Rightarrow> node list \<Rightarrow> event list \<times> bool" where
  "save_nodes w [] = ([], True)"
| "save_nodes w (n # ns) =
     (let (tr, embedding) = getEmbedding w (n_label n);
          q = MergeConcept (n_id n) (n_label n) embedding
      in if run_ok w q
         then (let (rest, completed) = save_nodes w ns in (tr @ [Run q] @ rest, completed))
         else (tr @ [Run q], False))"

text \<open>
  The second loop. Reading \<^verbatim>\<open>edge.data.label\<close> of an edge without \<^verbatim>\<open>data\<close> throws a
  TypeError inside the \<^verbatim>\<open>try\<close>, which ends the loop as a rejected run does.
\<close>

fun save_edges :: "env \<Rightarrow> edge list \<Rightarrow> event list" where
  "save_edges w [] = []"
| "save_edges w (e # es) =
     (case e_label e of
        None \<Rightarrow> []
      | Some label \<Rightarrow>
          (let q = MergeRelatesTo (e_source e) (e_target e) (e_id e) label
           in if run_ok w q then Run q # save_edges w es else [Run q]))"

text \<open>
  \<^verbatim>\<open>saveGraphToNeo4j\<close>. \<^verbatim>\<open>driver.session()\<close> stands before the \<^verbatim>\<open>try\<close>: when it
  throws, the function rejects at once. \<^verbatim>\<open>for (const node of nodes)\<close> on
  \<^verbatim>\<open>undefined\<close> throws inside the \<^verbatim>\<open>try\<close>; the \<^verbatim>\<open>catch\<close> swallows every error of
  the body. \<^verbatim>\<open>finally\<close> closes the session outside the \<^verbatim>\<open>catch\<close>: when
  \<^verbatim>\<open>session.close()\<close> rejects, so does the function. The result is the steps taken and
  the message of the error the function rejects with, \<open>None\<close> when it returns.
\<close>

definition saveGraphToNeo4j ::
  "env \<Rightarrow> node list option \<Rightarrow> edge list option \<Rightarrow> event list \<times> string option" where
  "saveGraphToNeo4j w nds eds =
     (case session_throws w of
        Some message \<Rightarrow> ([], Some message)
      | None \<Rightarrow>
          ([SessionOpen] @
           (case nds of
              None \<Rightarrow> []
            | Some ns \<Rightarrow>
                (let (tr, completed) = save_nodes w ns
                 in if completed
                    then tr @ (case eds of None \<Rightarrow> [] | Some es \<Rightarrow> save_edges w es)
                    else tr)) @
           [SessionClose],
           close_rejects w))"

subsection \<open>The handlers\<close>

text \<open>
  \<^verbatim>\<open>!s\<close> for a request field that is a string or missing: the missing field and the
  empty string are falsy.
\<close>

definition falsy :: "string option \<Rightarrow> bool" where
  "falsy s = (case s of None \<Rightarrow> True | Some t \<Rightarrow> t = [])"

text \<open>
  \<^verbatim>\<open>app.post('/api/generate')\<close>, on \<^verbatim>\<open>req.body.topic\<close>. The handler's \<^verbatim>\<open>try\<close> holds
  the call of \<^verbatim>\<open>generateGraph\<close>, the reading of \<^verbatim>\<open>graphData.nodes\<close> and
  \<^verbatim>\<open>graphData.edges\<close> (a TypeError when the parsed value is \<^verbatim>\<open>null\<close>), the awaited
  \<^verbatim>\<open>saveGraphToNeo4j\<close> and \<^verbatim>\<open>res.json(graphData)\<close>; its \<^verbatim>\<open>catch\<close> answers 500 with the
  message of whatever error reached it.
\<close>

definition api_generate :: "env \<Rightarrow> string option \<Rightarrow> event list" where
  "api_generate w topic =
     (case topic of
        None \<Rightarrow> [Respond 400 (ErrorBody ''Topic is required'')]
      | Some t \<Rightarrow>
          if t = [] then [Respond 400 (ErrorBody ''Topic is required'')]
          else (case generateGraph w (GeneratePrompt t) of
                  (tr, Inl message) \<Rightarrow> tr @ [Respond 500 (ErrorBody message)]
                | (tr, Inr JsonNull) \<Rightarrow> tr @ [Respond 500 (ErrorBody (null_TypeError w))]
                | (tr, Inr (JsonObject graph)) \<Rightarrow>
                    (case saveGraphToNeo4j w (gd_nodes graph) (gd_edges graph) of
                       (saved, Some message) \<Rightarrow> tr @ saved @ [Respond 500 (ErrorBody message)]
                     | (saved, None) \<Rightarrow> tr @ saved @ [Respond 200 (GraphBody graph)])))"

text \<open>
  \<^verbatim>\<open>app.post('/api/expand')\<close>, on \<^verbatim>\<open>req.body.fullGraph\<close> and
  \<^verbatim>\<open>req.body.selectedNodeId\<close>. \<^verbatim>\<open>fullGraph.nodes.find\<close> on a graph without \<^verbatim>\<open>nodes\<close>
  throws outside any \<^verbatim>\<open>try\<close>. The \<^verbatim>\<open>try\<close> and \<^verbatim>\<open>catch\<close> at the end of the handler
  are those of \<^verbatim>\<open>/api/generate\<close>.
\<close>

definition api_expand :: "env \<Rightarrow> graphData option \<Rightarrow> string option \<Rightarrow> event list" where
  "api_expand w fullGraph selectedNodeId =
     (case fullGraph of
        None \<Rightarrow> [Respond 400 (ErrorBody ''Full graph and selected node ID are required'')]
      | Some g \<Rightarrow>
          if falsy selectedNodeId
          then [Respond 400 (ErrorBody ''Full graph and selected node ID are required'')]
          else (case gd_nodes g of
                  None \<Rightarrow> [Uncaught]
                | Some ns \<Rightarrow>
                    (case find (\<lambda>n. Some (n_id n) = selectedNodeId) ns of
                       None \<Rightarrow> [Respond 404 (ErrorBody ''Selected node not found in the graph'')]
                     | Some selected \<Rightarrow>
                         (case generateGraph w (ExpandPrompt g selected) of
                            (tr, Inl message) \<Rightarrow> tr @ [Respond 500 (ErrorBody message)]
                          | (tr, Inr JsonNull) \<Rightarrow>
                              tr @ [Respond 500 (ErrorBody (null_TypeError w))]
                          | (tr, Inr (JsonObject graph)) \<Rightarrow>
                              (case saveGraphToNeo4j w (gd_nodes graph) (gd_edges graph) of
                                 (saved, Some message) \<Rightarrow>
                                   tr @ saved @ [Respond 500 (ErrorBody message)]
                               | (saved, None) \<Rightarrow>
                                   tr @ saved @ [Respond 200 (GraphBody graph)])))))"

subsection \<open>Loading the whole graph\<close>

text \<open>
  A JavaScript object created as \<^verbatim>\<open>{}\<close> and used as a dictionary with string keys: the
  list of its own properties in the order of their creation. Storing a property
  overwrites the value of an existing one in place and appends a new one.
\<close>

fun put :: "string \<Rightarrow> 'v \<Rightarrow> (string \<times> 'v) list \<Rightarrow> (string \<times> 'v) list" where
  "put key v [] = [(key, v)]"
| "put key v (p # ps) = (if fst p = key then (key, v) # ps else p # put key v ps)"

text \<open>
  \<^verbatim>\<open>obj[key] = value\<close> for an object \<^verbatim>\<open>value\<close>. The key \<^verbatim>\<open>__proto__\<close> is the accessor
  that \<^verbatim>\<open>obj\<close> inherits from \<^verbatim>\<open>Object.prototype\<close>: the assignment replaces the
  prototype of \<^verbatim>\<open>obj\<close> and stores no property. Every other key stores a property.
\<close>

definition assign :: "string \<Rightarrow> 'v \<Rightarrow> (string \<times> 'v) list \<Rightarrow> (string \<times> 'v) list" where
  "assign key v obj = (if key = ''__proto__'' then obj else put key v obj)"

text \<open>
  \<^verbatim>\<open>Object.values\<close> lists the properties whose key is an array index (the canonical
  decimal numeral of an integer from 0 to \<open>2\<^sup>3\<^sup>2 - 2\<close>) in ascending numeric order, then
  the others in the order of their creation.
\<close>

definition digit :: "char \<Rightarrow> nat option" where
  "digit c = (let k = (of_char c :: nat) in if 48 \<le> k \<and> k \<le> 57 then Some (k - 48) else None)"

fun decimal :: "nat \<Rightarrow> string \<Rightarrow> nat option" where
  "decimal acc [] = Some acc"
| "decimal acc (c # cs) =
     (case digit c of None \<Rightarrow> None | Some d \<Rightarrow> decimal (10 * acc + d) cs)"

definition array_index :: "string \<Rightarrow> nat option" where
  "array_index s =
     (case s of
        [] \<Rightarrow> None
      | c # cs \<Rightarrow>
          if c = CHR ''0'' \<and> cs \<noteq> [] then None
          else (case decimal 0 s of
                  None \<Rightarrow> None
                | Some k \<Rightarrow> if k \<le> 4294967294 then Some k else None))"

definition Object_values :: "(string \<times> 'v) list \<Rightarrow> 'v list" where
  "Object_values obj =
     map snd (sort_key (\<lambda>p. case array_index (fst p) of None \<Rightarrow> 0 | Some k \<Rightarrow> k)
                (filter (\<lambda>p. array_index (fst p) \<noteq> None) obj))
     @ map snd (filter (\<lambda>p. array_index (fst p) = None) obj)"

text \<open>\<^verbatim>\<open>a || b\<close> where \<^verbatim>\<open>a\<close> is a string property that may be absent.\<close>

definition js_or :: "string option \<Rightarrow> string \<Rightarrow> string" where
  "js_or a b = (if falsy a then b else (case a of None \<Rightarrow> b | Some s \<Rightarrow> s))"

text \<open>
  \<^verbatim>\<open>result.records.forEach(record => ...)\<close> of \<^verbatim>\<open>/api/neo4j/all\<close>, on the two
  dictionaries \<^verbatim>\<open>nodes\<close> and \<^verbatim>\<open>edges\<close>; \<open>k\<close> counts the calls of \<^verbatim>\<open>Math.random()\<close>
  made so far.
\<close>

fun forEach_record ::
  "(nat \<Rightarrow> real) \<Rightarrow> nat \<Rightarrow> db_record list \<Rightarrow>
   (string \<times> node) list \<times> (string \<times> edge) list \<Rightarrow>
   (string \<times> node) list \<times> (string \<times> edge) list" where
  "forEach_record rnd k [] (nodesObj, edgesObj) = (nodesObj, edgesObj)"
| "forEach_record rnd k ((n, relationship, targetNode) # recs) (nodesObj, edgesObj) =
     (let nodesObj' =
            assign (c_id n)
              \<lparr>n_id = c_id n, n_label = c_label n,
               n_position = \<lparr>pos_x = rnd k * 500, pos_y = rnd (k + 1) * 500\<rparr>\<rparr> nodesObj;
          edgesObj' =
            (case (relationship, targetNode) of
               (Some r, Some m) \<Rightarrow>
                 assign (r_id r)
                   \<lparr>e_id = r_id r,
                    e_source = js_or (r_source r) (c_id n),
                    e_target = js_or (r_target r) (c_id m),
                    e_label = Some (r_label r)\<rparr> edgesObj
             | _ \<Rightarrow> edgesObj)
      in forEach_record rnd (k + 2) recs (nodesObj', edgesObj'))"

text \<open>The graph that \<^verbatim>\<open>/api/neo4j/all\<close> answers with, from the records of the query.\<close>

definition all_graph :: "(nat \<Rightarrow> real) \<Rightarrow> db_record list \<Rightarrow> graphData" where
  "all_graph rnd recs =
     (let (nodesObj, edgesObj) = forEach_record rnd 0 recs ([], [])
      in \<lparr>gd_nodes = Some (Object_values nodesObj), gd_edges = Some (Object_values edgesObj)\<rparr>)"

text \<open>
  \<^verbatim>\<open>app.get('/api/neo4j/all')\<close>. \<^verbatim>\<open>driver.session()\<close> stands before the \<^verbatim>\<open>try\<close>;
  \<^verbatim>\<open>finally\<close> closes the session after the response, outside the \<^verbatim>\<open>catch\<close>.
\<close>

definition api_neo4j_all :: "env \<Rightarrow> event list" where
  "api_neo4j_all w =
     (case session_throws w of
        Some message \<Rightarrow> [Uncaught]
      | None \<Rightarrow>
          [SessionOpen, Run MatchAll] @
          (case match_all w of
             None \<Rightarrow> [Respond 500 (ErrorBody ''Failed to fetch all graph data from Neo4j.'')]
           | Some recs \<Rightarrow> [Respond 200 (GraphBody (all_graph (random w) recs))]) @
          [SessionClose] @
          (case close_rejects w of None \<Rightarrow> [] | Some message \<Rightarrow> [Uncaught]))"

text \<open>
  The relationship that the second statement of \<^verbatim>\<open>saveGraphToNeo4j\<close> creates for an
  edge: its properties are \<^verbatim>\<open>{id: $edgeId, label: $label}\<close> and nothing else.
\<close>

definition saved_relationship :: "string \<Rightarrow> string \<Rightarrow> relationship" where
  "saved_relationship edgeId label =
     \<lparr>r_id = edgeId, r_label = label, r_source = None, r_target = None\<rparr>"

section \<open>The 3D renderer (GraphCanvas3D.tsx)\<close>

text \<open>
  A node mesh, as far as the edge pass reads it: \<^verbatim>\<open>mesh.position\<close> and
  \<^verbatim>\<open>mesh.userData.nodeId\<close>.
\<close>

type_synonym vec3 = "real \<times> real \<times> real"

record mesh =
  mesh_position :: vec3
  userData_nodeId :: string

text \<open>
  The node pass: one mesh per layouted node, at
  \<^verbatim>\<open>(node.position.x * 0.8, node.position.y * 0.8, 0)\<close>.
\<close>

definition nodeMeshes :: "node list \<Rightarrow> mesh list" where
  "nodeMeshes layoutedNodes =
     map (\<lambda>n. \<lparr>mesh_position = (pos_x (n_position n) * 0.8, pos_y (n_position n) * 0.8, 0),
               userData_nodeId = n_id n\<rparr>) layoutedNodes"

datatype render_error = TypeError

text \<open>
  Reading \<^verbatim>\<open>.position\<close> of the result of \<^verbatim>\<open>nodeMeshes.find(...)\<close>: a TypeError when
  \<^verbatim>\<open>find\<close> returned \<^verbatim>\<open>undefined\<close>.
\<close>

definition position_of :: "mesh option \<Rightarrow> render_error + vec3" where
  "position_of found = (case found of None \<Rightarrow> Inl TypeError | Some m \<Rightarrow> Inr (mesh_position m))"

text \<open>
  The edge pass \<^verbatim>\<open>edges.forEach(edge => ...)\<close>. The result is the list of lines added to
  the scene, each with its two points, or the error that ended the pass.
\<close>

fun create_edges :: "mesh list \<Rightarrow> edge list \<Rightarrow> render_error + (vec3 \<times> vec3) list" where
  "create_edges meshes [] = Inr []"
| "create_edges meshes (e # es) =
     (let sourceNodeMesh = find (\<lambda>m. userData_nodeId m = e_source e) meshes;
          targetNodeMesh = find (\<lambda>m. userData_nodeId m = e_target e) meshes
      in if sourceNodeMesh \<noteq> None \<and> targetNodeMesh \<noteq> None
         then (case position_of sourceNodeMesh of
                 Inl err \<Rightarrow> Inl err
               | Inr p \<Rightarrow>
                   (case position_of targetNodeMesh of
                      Inl err \<Rightarrow> Inl err
                    | Inr q \<Rightarrow>
                        (case create_edges meshes es of
                           Inl err \<Rightarrow> Inl err
                         | Inr ls \<Rightarrow> Inr ((p, q) # ls))))
         else create_edges meshes es)"

text \<open>
  The edge pass as the component runs it: the meshes come from the nodes that
  \<^verbatim>\<open>getLayoutedElements(nodes, edges, 'LR')\<close> (module \<^verbatim>\<open>utils/layout\<close>, a parameter here)
  returns, the edges are the component's own \<^verbatim>\<open>edges\<close>.
\<close>

definition GraphCanvas3D_edges ::
  "(node list \<Rightarrow> edge list \<Rightarrow> string \<Rightarrow> node list \<times> edge list) \<Rightarrow>
   node list \<Rightarrow> edge list \<Rightarrow> render_error + (vec3 \<times> vec3) list" where
  "GraphCanvas3D_edges getLayoutedElements nds eds =
     create_edges (nodeMeshes (fst (getLayoutedElements nds eds ''LR''))) eds"

section \<open>Reading a sequence of steps\<close>

text \<open>The statements that a sequence of steps ran against the database, in order.\<close>

fun runs :: "event list \<Rightarrow> query list" where
  "runs [] = []"
| "runs (Run q # tr) = q # runs tr"
| "runs (_ # tr) = runs tr"

text \<open>The prompts that a sequence of steps sent to the model, in order.\<close>

fun llm_calls :: "event list \<Rightarrow> prompt list" where
  "llm_calls [] = []"
| "llm_calls (GenerateContent p # tr) = p # llm_calls tr"
| "llm_calls (_ # tr) = llm_calls tr"

fun is_response :: "event \<Rightarrow> bool" where
  "is_response (Respond status b) = True"
| "is_response _ = False"

text \<open>The steps that a handler has performed when it sends its response.\<close>

definition before_response :: "event list \<Rightarrow> event list" where
  "before_response tr = takeWhile (\<lambda>e. \<not> is_response e) tr"

section \<open>Stub collaborators for concrete runs\<close>

text \<open>
  A one-node fragment, as in the scenario of the specification: topic Photosynthesis,
  one node with id 1.
\<close>

definition photosynthesis :: graphData where
  "photosynthesis =
     \<lparr>gd_nodes = Some [\<lparr>n_id = ''1'', n_label = ''Photosynthesis'',
                         n_position = \<lparr>pos_x = 0, pos_y = 0\<rparr>\<rparr>],
      gd_edges = Some []\<rparr>"

text \<open>
  A stub world in which the model answers with a text that parses to that fragment, the
  embedding model fails, sessions open and close and every database statement
  succeeds.
\<close>

definition stub_env :: env where
  "stub_env =
     \<lparr>llm = (\<lambda>p. Some ''{...}''),
      JSON_parse = (\<lambda>text. Some (JsonObject photosynthesis)),
      null_TypeError = ''Cannot read properties of null'',
      embed = (\<lambda>text. None),
      session_throws = None,
      close_rejects = None,
      run_ok = (\<lambda>q. True),
      match_all = Some [(\<lparr>c_id = ''1'', c_label = ''Photosynthesis''\<rparr>,
                         Some (saved_relationship ''edge-1-2'' ''needs''),
                         Some \<lparr>c_id = ''2'', c_label = ''Light''\<rparr>),
                        (\<lparr>c_id = ''2'', c_label = ''Light''\<rparr>, None, None)],
      random = (\<lambda>k. 0)\<rparr>"

text \<open>The same world with a model whose answer is not JSON.\<close>

definition stub_env_malformed :: env where
  "stub_env_malformed =
     stub_env\<lparr>llm := (\<lambda>p. Some ''Sorry, I cannot do that.''), JSON_parse := (\<lambda>text. None)\<rparr>"

text \<open>
  The same world with a database in which the relationship from node 1 to node 2 stores
  a \<^verbatim>\<open>source\<close> property of its own, the id of no \<^verbatim>\<open>Concept\<close>.
\<close>

definition stub_env_stored_source :: env where
  "stub_env_stored_source =
     stub_env\<lparr>match_all :=
       Some [(\<lparr>c_id = ''1'', c_label = ''Photosynthesis''\<rparr>,
              Some \<lparr>r_id = ''edge-1-2'', r_label = ''needs'',
                    r_source = Some ''ghost'', r_target = None\<rparr>,
              Some \<lparr>c_id = ''2'', c_label = ''Light''\<rparr>),
             (\<lparr>c_id = ''2'', c_label = ''Light''\<rparr>, None, None)]\<rparr>"

section \<open>Properties of the merge loop\<close>

lemma forEach_push_filter:
  "forEach_push ident ex updated xs = updated @ filter (\<lambda>x. ident x \<notin> ex) xs"
  by (induction xs arbitrary: updated) simp_all

lemma updatedNodes_eq:
  "updatedNodes nds F = nds @ filter (\<lambda>n. n_id n \<notin> n_id ` set nds) (or_empty F)"
  by (simp add: updatedNodes_def forEach_push_filter)

lemma updatedEdges_eq:
  "updatedEdges eds F = eds @ filter (\<lambda>e. e_id e \<notin> e_id ` set eds) (or_empty F)"
  by (simp add: updatedEdges_def forEach_push_filter)


lemma count_list_filter_if:
  "count_list (filter P xs) x = (if P x then count_list xs x else 0)"
  by (induction xs) auto

lemma distinct_ident_push:
  assumes "distinct (map ident xs)" and "distinct (map ident ys)"
  shows "distinct (map ident (xs @ filter (\<lambda>y. ident y \<notin> ident ` set xs) ys))"
  using assms by (auto simp: distinct_map_filter) (metis imageI)

section \<open>Claims about the working graph\<close>

text \<open>
  C1. Merge is first-write-wins deduplication by identifier. For every working graph
  \<open>(ns, es)\<close> and fragment \<open>F\<close>, the merged node list is the existing list, unchanged
  and in place (so no existing node is relabelled), followed by exactly those nodes of
  \<open>F\<close>, in their order, whose id is not the id of a node of \<open>ns\<close>; the merged edge list
  is built from \<open>es\<close> and the edges of \<open>F\<close> by the same rule on edge ids.
\<close>

theorem merge_first_write_wins:
  "fst (merge (ns, es) F)
     = ns @ filter (\<lambda>n. n_id n \<notin> n_id ` set ns) (or_empty (gd_nodes F))
   \<and> snd (merge (ns, es) F)
     = es @ filter (\<lambda>e. e_id e \<notin> e_id ` set es) (or_empty (gd_edges F))"
  by (simp add: merge_def updatedNodes_eq updatedEdges_eq)

text \<open>
  C2. Deleting the node with id \<open>d\<close> removes every node whose id is \<open>d\<close> and every edge
  whose source or target is \<open>d\<close>, and nothing else: each other node and each edge that
  touches \<open>d\<close> at neither end occurs in the new lists as often as before, and the new
  lists keep the order of the old ones.
\<close>

theorem handleDeleteNode_cascade:
  "(\<forall>n. count_list (nodes (handleDeleteNode st d)) n
          = (if n_id n = d then 0 else count_list (nodes st) n))
   \<and> subseq (nodes (handleDeleteNode st d)) (nodes st)
   \<and> (\<forall>e. count_list (edges (handleDeleteNode st d)) e
          = (if e_source e = d \<or> e_target e = d then 0 else count_list (edges st) e))
   \<and> subseq (edges (handleDeleteNode st d)) (edges st)"
  by (simp add: handleDeleteNode_def count_list_filter_if)

text \<open>
  C4, as the claim states it, fails in its last part: the set of existing ids is taken
  before the loop and is not extended by the pushes, and merge removes nothing. A
  fragment that carries the same new id twice puts both nodes into the result: merging
  \<^verbatim>\<open>{nodes: [a, a]}\<close> into the empty graph gives two nodes with id \<^verbatim>\<open>a\<close>. And a graph
  that holds an id twice keeps both nodes through any merge.
\<close>

theorem merge_duplicate_ids_counterexample:
  "\<not> distinct (map n_id (fst (merge ([], [])
       \<lparr>gd_nodes = Some [\<lparr>n_id = ''a'', n_label = ''A'', n_position = \<lparr>pos_x = 0, pos_y = 0\<rparr>\<rparr>,
                          \<lparr>n_id = ''a'', n_label = ''A'', n_position = \<lparr>pos_x = 0, pos_y = 0\<rparr>\<rparr>],
         gd_edges = Some []\<rparr>)))
   \<and> \<not> distinct (map n_id (fst (merge
       ([\<lparr>n_id = ''a'', n_label = ''A'', n_position = \<lparr>pos_x = 0, pos_y = 0\<rparr>\<rparr>,
         \<lparr>n_id = ''a'', n_label = ''A'', n_position = \<lparr>pos_x = 0, pos_y = 0\<rparr>\<rparr>], [])
       \<lparr>gd_nodes = Some [], gd_edges = Some []\<rparr>)))"
  by (simp add: merge_def updatedNodes_def updatedEdges_def or_empty_def)

text \<open>
  C4, amended. Merging \<open>F\<close> a second time into \<open>merge G F\<close> changes nothing: the result
  is the same pair of lists. The merged node ids are pairwise different whenever the
  node ids of \<open>G\<close> are and the node ids inside \<open>F\<close> are; likewise for edge ids.
\<close>

theorem merge_idempotent:
  "merge (merge G F) F = merge G F
   \<and> (distinct (map n_id (fst G)) \<and> distinct (map n_id (or_empty (gd_nodes F)))
        \<longrightarrow> distinct (map n_id (fst (merge G F))))
   \<and> (distinct (map e_id (snd G)) \<and> distinct (map e_id (or_empty (gd_edges F)))
        \<longrightarrow> distinct (map e_id (snd (merge G F))))"
proof -
  have idem: "merge (merge G F) F = merge G F"
    by (auto simp: merge_def updatedNodes_eq updatedEdges_eq filter_empty_conv)
  have dn: "distinct (map n_id (fst (merge G F)))"
    if "distinct (map n_id (fst G))" "distinct (map n_id (or_empty (gd_nodes F)))"
    using that by (simp only: merge_def fst_conv updatedNodes_eq distinct_ident_push)
  have de: "distinct (map e_id (snd (merge G F)))"
    if "distinct (map e_id (snd G))" "distinct (map e_id (or_empty (gd_edges F)))"
    using that by (simp only: merge_def snd_conv updatedEdges_eq distinct_ident_push)
  from idem dn de show ?thesis by blast
qed

theorem merge_idempotent_witness:
  "(let G = ([\<lparr>n_id = ''1'', n_label = ''Photosynthesis'', n_position = \<lparr>pos_x = 0, pos_y = 0\<rparr>\<rparr>], []);
        F = \<lparr>gd_nodes = Some [\<lparr>n_id = ''1'', n_label = ''Other'', n_position = \<lparr>pos_x = 5, pos_y = 5\<rparr>\<rparr>,
                              \<lparr>n_id = ''2'', n_label = ''Light'', n_position = \<lparr>pos_x = 9, pos_y = 9\<rparr>\<rparr>],
              gd_edges = Some [\<lparr>e_id = ''e-1-2'', e_source = ''1'', e_target = ''2'',
                                e_label = Some ''needs''\<rparr>]\<rparr>
    in distinct (map n_id (fst G)) \<and> distinct (map n_id (or_empty (gd_nodes F)))
       \<and> distinct (map e_id (snd G)) \<and> distinct (map e_id (or_empty (gd_edges F)))
       \<and> merge (merge G F) F = merge G F
       \<and> distinct (map n_id (fst (merge G F)))
       \<and> distinct (map e_id (snd (merge G F)))
       \<and> map n_label (fst (merge G F)) = [''Photosynthesis'', ''Light''])"
  using merge_idempotent
    [of "([\<lparr>n_id = ''1'', n_label = ''Photosynthesis'', n_position = \<lparr>pos_x = 0, pos_y = 0\<rparr>\<rparr>], [])"
        "\<lparr>gd_nodes = Some [\<lparr>n_id = ''1'', n_label = ''Other'', n_position = \<lparr>pos_x = 5, pos_y = 5\<rparr>\<rparr>,
                            \<lparr>n_id = ''2'', n_label = ''Light'', n_position = \<lparr>pos_x = 9, pos_y = 9\<rparr>\<rparr>],
            gd_edges = Some [\<lparr>e_id = ''e-1-2'', e_source = ''1'', e_target = ''2'',
                              e_label = Some ''needs''\<rparr>]\<rparr>"]
  by (simp add: merge_def updatedNodes_def updatedEdges_def or_empty_def)

text \<open>
  C5. Merge is monotone. The merged node list starts with the node list of \<open>G\<close>, element
  for element, and the merged edge list with the edge list of \<open>G\<close>: every node and edge
  of \<open>G\<close> is in the result, none is removed or altered, and neither list gets shorter.
\<close>

theorem merge_monotone:
  "prefix (fst G) (fst (merge G F)) \<and> prefix (snd G) (snd (merge G F))
   \<and> set (fst G) \<subseteq> set (fst (merge G F)) \<and> set (snd G) \<subseteq> set (snd (merge G F))
   \<and> length (fst G) \<le> length (fst (merge G F))
   \<and> length (snd G) \<le> length (snd (merge G F))"
  by (simp add: merge_def updatedNodes_eq updatedEdges_eq)

section \<open>Properties of the server's loops\<close>

lemma runs_append: "runs (xs @ ys) = runs xs @ runs ys"
  by (induction xs rule: runs.induct) simp_all

lemma getEmbedding_total_embed:
  "getEmbedding (w\<lparr>embed := (\<lambda>t. Some (case embed w t of None \<Rightarrow> [] | Some v \<Rightarrow> v))\<rparr>) text
     = getEmbedding w text"
  by (simp add: getEmbedding_def split: option.split)

lemma save_nodes_total_embed:
  "save_nodes (w\<lparr>embed := (\<lambda>t. Some (case embed w t of None \<Rightarrow> [] | Some v \<Rightarrow> v))\<rparr>) ns
     = save_nodes w ns"
proof (induction ns)
  case Nil
  show ?case by simp
next
  case (Cons n ns)
  show ?case
    by (simp only: save_nodes.simps getEmbedding_total_embed Cons.IH) simp
qed

lemma save_edges_embed_irrelevant:
  "save_edges (w\<lparr>embed := f\<rparr>) es = save_edges w es"
  by (induction es) (simp_all add: Let_def split: option.split)

lemma save_nodes_all_ok:
  assumes "\<forall>q. run_ok w q"
  shows "snd (save_nodes w ns) = True
     \<and> runs (fst (save_nodes w ns))
         = map (\<lambda>n. MergeConcept (n_id n) (n_label n)
                       (case embed w (n_label n) of None \<Rightarrow> [] | Some v \<Rightarrow> v)) ns"
  using assms
  by (induction ns) (simp_all add: getEmbedding_def split_beta Let_def runs_append)

lemma save_edges_all_ok:
  assumes "\<forall>q. run_ok w q" and "\<forall>e \<in> set es. e_label e \<noteq> None"
  shows "runs (save_edges w es)
     = List.map_filter
         (\<lambda>e. map_option (MergeRelatesTo (e_source e) (e_target e) (e_id e)) (e_label e)) es"
  using assms
  by (induction es) (auto simp: Let_def split: option.split)

lemma save_nodes_no_response: "\<forall>e \<in> set (fst (save_nodes w ns)). \<not> is_response e"
  by (induction ns) (simp_all add: getEmbedding_def split_beta Let_def)

lemma save_edges_no_response: "\<forall>e \<in> set (save_edges w es). \<not> is_response e"
  by (induction es) (auto simp: Let_def split: option.split)

lemma saveGraphToNeo4j_throws:
  "session_throws w = Some message \<Longrightarrow> saveGraphToNeo4j w nds eds = ([], Some message)"
  by (simp add: saveGraphToNeo4j_def)

lemma saveGraphToNeo4j_shape:
  assumes "session_throws w = None"
  shows "\<exists>tr. saveGraphToNeo4j w nds eds = (SessionOpen # tr @ [SessionClose], close_rejects w)
        \<and> (\<forall>e \<in> set tr. \<not> is_response e)"
proof (cases nds)
  case None
  with assms show ?thesis by (simp add: saveGraphToNeo4j_def)
next
  case (Some ns)
  obtain tr fin where sn: "save_nodes w ns = (tr, fin)" by (cases "save_nodes w ns")
  have a: "\<forall>e \<in> set tr. \<not> is_response e"
    using save_nodes_no_response [of w ns] sn by simp
  show ?thesis
  proof (cases fin)
    case False
    with assms Some sn a show ?thesis by (simp add: saveGraphToNeo4j_def)
  next
    case True
    show ?thesis
    proof (cases eds)
      case None
      with assms Some sn a True show ?thesis by (simp add: saveGraphToNeo4j_def)
    next
      case (Some es)
      have b: "\<forall>e \<in> set (save_edges w es). \<not> is_response e"
        by (rule save_edges_no_response)
      from assms \<open>nds = Some ns\<close> Some sn True a b show ?thesis
        by (simp add: saveGraphToNeo4j_def) blast
    qed
  qed
qed

lemma saveGraphToNeo4j_no_response:
  "\<forall>e \<in> set (fst (saveGraphToNeo4j w nds eds)). \<not> is_response e"
proof (cases "session_throws w")
  case None
  from saveGraphToNeo4j_shape [OF this, of nds eds] show ?thesis by auto
next
  case (Some message)
  then show ?thesis by (simp add: saveGraphToNeo4j_throws)
qed

lemma saveGraphToNeo4j_outcome:
  "snd (saveGraphToNeo4j w nds eds)
     = (case session_throws w of Some message \<Rightarrow> Some message | None \<Rightarrow> close_rejects w)"
  by (simp add: saveGraphToNeo4j_def split: option.split)

lemma api_generate_parsed:
  assumes "t \<noteq> []"
  shows "api_generate w (Some t)
     = [GenerateContent (GeneratePrompt t)] @
       (case snd (generateGraph w (GeneratePrompt t)) of
          Inl message \<Rightarrow> [Respond 500 (ErrorBody message)]
        | Inr JsonNull \<Rightarrow> [Respond 500 (ErrorBody (null_TypeError w))]
        | Inr (JsonObject graph) \<Rightarrow>
            fst (saveGraphToNeo4j w (gd_nodes graph) (gd_edges graph)) @
            [case snd (saveGraphToNeo4j w (gd_nodes graph) (gd_edges graph)) of
               None \<Rightarrow> Respond 200 (GraphBody graph)
             | Some message \<Rightarrow> Respond 500 (ErrorBody message)])"
  using assms
  by (simp add: api_generate_def generateGraph_def
      split: option.split sum.split parsed.split prod.split)

lemma api_expand_parsed:
  assumes "fullGraph = Some g" and "gd_nodes g = Some ns" and "\<not> falsy selectedNodeId"
    and "find (\<lambda>n. Some (n_id n) = selectedNodeId) ns = Some selected"
  shows "api_expand w fullGraph selectedNodeId
     = [GenerateContent (ExpandPrompt g selected)] @
       (case snd (generateGraph w (ExpandPrompt g selected)) of
          Inl message \<Rightarrow> [Respond 500 (ErrorBody message)]
        | Inr JsonNull \<Rightarrow> [Respond 500 (ErrorBody (null_TypeError w))]
        | Inr (JsonObject graph) \<Rightarrow>
            fst (saveGraphToNeo4j w (gd_nodes graph) (gd_edges graph)) @
            [case snd (saveGraphToNeo4j w (gd_nodes graph) (gd_edges graph)) of
               None \<Rightarrow> Respond 200 (GraphBody graph)
             | Some message \<Rightarrow> Respond 500 (ErrorBody message)])"
  using assms
  by (simp add: api_expand_def generateGraph_def
      split: option.split sum.split parsed.split prod.split)

section \<open>Claims about the server\<close>

text \<open>
  C3, as the claim states it, fails: the handler first tests
  \<^verbatim>\<open>!fullGraph || !selectedNodeId\<close>, and the empty string is falsy. A request whose
  \<^verbatim>\<open>selectedNodeId\<close> is the empty string matches no node of the graph sent with it and is
  answered with status 400, not 404.
\<close>

theorem api_expand_empty_id_counterexample:
  "'''' \<notin> set (map n_id (or_empty (gd_nodes photosynthesis)))
   \<and> api_expand stub_env (Some photosynthesis) (Some '''')
       = [Respond 400 (ErrorBody ''Full graph and selected node ID are required'')]"
  by (simp add: api_expand_def falsy_def photosynthesis_def or_empty_def)

text \<open>
  C3, amended. For every request to the expand operation that carries a graph with a
  node list and a non-empty \<^verbatim>\<open>selectedNodeId\<close> equal to the id of none of these nodes,
  the handler answers 404 with the not-found message and does nothing else. For every
  request at all whose \<^verbatim>\<open>selectedNodeId\<close> is the id of no node of the supplied graph,
  the handler makes no call to the model.
\<close>

theorem api_expand_unknown_node:
  "(fullGraph = Some g \<and> gd_nodes g = Some ns \<and> selectedNodeId = Some s \<and> s \<noteq> []
      \<and> s \<notin> n_id ` set ns
    \<longrightarrow> api_expand w fullGraph selectedNodeId
          = [Respond 404 (ErrorBody ''Selected node not found in the graph'')])
   \<and> ((\<forall>g' n. fullGraph = Some g' \<longrightarrow> n \<in> set (or_empty (gd_nodes g'))
                 \<longrightarrow> Some (n_id n) \<noteq> selectedNodeId)
    \<longrightarrow> llm_calls (api_expand w fullGraph selectedNodeId) = [])"
proof (intro conjI impI)
  assume a: "fullGraph = Some g \<and> gd_nodes g = Some ns \<and> selectedNodeId = Some s \<and> s \<noteq> []
      \<and> s \<notin> n_id ` set ns"
  then have "find (\<lambda>n. Some (n_id n) = selectedNodeId) ns = None"
    by (auto simp: find_None_iff)
  with a show "api_expand w fullGraph selectedNodeId
          = [Respond 404 (ErrorBody ''Selected node not found in the graph'')]"
    by (simp add: api_expand_def falsy_def)
next
  assume b: "\<forall>g' n. fullGraph = Some g' \<longrightarrow> n \<in> set (or_empty (gd_nodes g'))
                 \<longrightarrow> Some (n_id n) \<noteq> selectedNodeId"
  show "llm_calls (api_expand w fullGraph selectedNodeId) = []"
  proof (cases fullGraph)
    case None
    then show ?thesis by (simp add: api_expand_def)
  next
    case (Some g')
    show ?thesis
    proof (cases "gd_nodes g'")
      case None
      with Some show ?thesis by (simp add: api_expand_def)
    next
      case (Some ns')
      with b \<open>fullGraph = Some g'\<close>
      have "find (\<lambda>n. Some (n_id n) = selectedNodeId) ns' = None"
        by (auto simp: find_None_iff or_empty_def)
      with Some \<open>fullGraph = Some g'\<close> show ?thesis by (simp add: api_expand_def)
    qed
  qed
qed

theorem api_expand_unknown_node_witness:
  "gd_nodes photosynthesis
       = Some [\<lparr>n_id = ''1'', n_label = ''Photosynthesis'', n_position = \<lparr>pos_x = 0, pos_y = 0\<rparr>\<rparr>]
   \<and> ''42'' \<noteq> []
   \<and> ''42'' \<notin> n_id ` set [\<lparr>n_id = ''1'', n_label = ''Photosynthesis'',
                              n_position = \<lparr>pos_x = 0, pos_y = 0\<rparr>\<rparr>]
   \<and> api_expand stub_env (Some photosynthesis) (Some ''42'')
       = [Respond 404 (ErrorBody ''Selected node not found in the graph'')]
   \<and> llm_calls (api_expand stub_env (Some photosynthesis) (Some ''42'')) = []"
  using api_expand_unknown_node
    [of "Some photosynthesis" photosynthesis
        "[\<lparr>n_id = ''1'', n_label = ''Photosynthesis'', n_position = \<lparr>pos_x = 0, pos_y = 0\<rparr>\<rparr>]"
        "Some ''42''" "''42''" stub_env]
  by (simp add: photosynthesis_def or_empty_def)

text \<open>
  C6, as the claim states it, fails in the text of the message: the error that
  \<^verbatim>\<open>generateGraph\<close> throws reads \<^verbatim>\<open>Failed to generate graph from API.\<close>, with a full stop
  at its end, and that text is what the endpoint puts into the body.
\<close>

theorem api_generate_message_counterexample:
  "api_generate stub_env_malformed (Some ''Photosynthesis'')
     \<noteq> [GenerateContent (GeneratePrompt ''Photosynthesis''),
         Respond 500 (ErrorBody ''Failed to generate graph from API'')]"
  by (simp add: api_generate_def generateGraph_def stub_env_malformed_def stub_env_def)

text \<open>
  C6, amended. For every generation request (a non-empty topic) whose answer from the
  model does not parse as JSON, \<^verbatim>\<open>generateGraph\<close> fails with the message
  \<^verbatim>\<open>Failed to generate graph from API.\<close> (with the full stop), and \<^verbatim>\<open>/api/generate\<close>
  answers with status 500 and a body \<^verbatim>\<open>{error}\<close> carrying that message, after the one
  call to the model and without touching the database.
\<close>

theorem api_generate_malformed_json:
  assumes "topic = Some t" and "t \<noteq> []"
    and "llm w (GeneratePrompt t) = Some text" and "JSON_parse w text = None"
  shows "snd (generateGraph w (GeneratePrompt t)) = Inl ''Failed to generate graph from API.''
     \<and> api_generate w topic
         = [GenerateContent (GeneratePrompt t),
            Respond 500 (ErrorBody ''Failed to generate graph from API.'')]"
  using assms by (simp add: api_generate_def generateGraph_def)

theorem api_generate_malformed_json_witness:
  "''Photosynthesis'' \<noteq> []
   \<and> llm stub_env_malformed (GeneratePrompt ''Photosynthesis'') = Some ''Sorry, I cannot do that.''
   \<and> JSON_parse stub_env_malformed ''Sorry, I cannot do that.'' = None
   \<and> snd (generateGraph stub_env_malformed (GeneratePrompt ''Photosynthesis''))
       = Inl ''Failed to generate graph from API.''
   \<and> api_generate stub_env_malformed (Some ''Photosynthesis'')
       = [GenerateContent (GeneratePrompt ''Photosynthesis''),
          Respond 500 (ErrorBody ''Failed to generate graph from API.'')]"
  using api_generate_malformed_json
    [of "Some ''Photosynthesis''" "''Photosynthesis''" stub_env_malformed
        "''Sorry, I cannot do that.''"]
  by (simp add: stub_env_malformed_def stub_env_def)

text \<open>
  C7, as the claim states it, fails: both handlers \<^verbatim>\<open>await saveGraphToNeo4j(...)\<close>
  before \<^verbatim>\<open>res.json(graphData)\<close>. In the stub world a successful generation writes the
  node and closes the database session before the response is sent; the response is
  the last step of the request.
\<close>

theorem api_generate_awaits_save_counterexample:
  "api_generate stub_env (Some ''Photosynthesis'')
     = [GenerateContent (GeneratePrompt ''Photosynthesis''),
        SessionOpen,
        EmbedContent ''Photosynthesis'',
        Run (MergeConcept ''1'' ''Photosynthesis'' []),
        SessionClose,
        Respond 200 (GraphBody photosynthesis)]
   \<and> SessionClose \<in> set (before_response (api_generate stub_env (Some ''Photosynthesis'')))"
  by (simp add: api_generate_def generateGraph_def saveGraphToNeo4j_def getEmbedding_def
      before_response_def stub_env_def photosynthesis_def)

text \<open>
  C7, amended. On every generation or expansion whose reply parses to a graph, the
  handler awaits the persistence step and answers only after the step has ended: the
  request is the call to the model, then all the steps of \<^verbatim>\<open>saveGraphToNeo4j\<close>, none of
  which is a response, then the one response. The response is 200 with the generated
  fragment when the step returns, and 500 with the message of the error when the step
  rejects. The step rejects exactly when opening its session throws or closing it
  rejects; between the two it runs from the opening to the closing of the session, and
  what the embedding model and the database statements do there has no bearing on the
  response. A reply that parses to \<^verbatim>\<open>null\<close> is answered 500 with the message of the
  TypeError, without any step of persistence.
\<close>

theorem handlers_respond_after_save:
  "(topic = Some t \<and> t \<noteq> [] \<and> snd (generateGraph w (GeneratePrompt t)) = Inr (JsonObject graph)
    \<longrightarrow> api_generate w topic
          = [GenerateContent (GeneratePrompt t)]
            @ fst (saveGraphToNeo4j w (gd_nodes graph) (gd_edges graph))
            @ [case snd (saveGraphToNeo4j w (gd_nodes graph) (gd_edges graph)) of
                 None \<Rightarrow> Respond 200 (GraphBody graph)
               | Some message \<Rightarrow> Respond 500 (ErrorBody message)])
   \<and> (topic = Some t \<and> t \<noteq> [] \<and> snd (generateGraph w (GeneratePrompt t)) = Inr JsonNull
    \<longrightarrow> api_generate w topic
          = [GenerateContent (GeneratePrompt t), Respond 500 (ErrorBody (null_TypeError w))])
   \<and> (fullGraph = Some g \<and> gd_nodes g = Some ns \<and> \<not> falsy selectedNodeId
      \<and> find (\<lambda>n. Some (n_id n) = selectedNodeId) ns = Some selected
      \<and> snd (generateGraph w (ExpandPrompt g selected)) = Inr (JsonObject graph)
    \<longrightarrow> api_expand w fullGraph selectedNodeId
          = [GenerateContent (ExpandPrompt g selected)]
            @ fst (saveGraphToNeo4j w (gd_nodes graph) (gd_edges graph))
            @ [case snd (saveGraphToNeo4j w (gd_nodes graph) (gd_edges graph)) of
                 None \<Rightarrow> Respond 200 (GraphBody graph)
               | Some message \<Rightarrow> Respond 500 (ErrorBody message)])
   \<and> (fullGraph = Some g \<and> gd_nodes g = Some ns \<and> \<not> falsy selectedNodeId
      \<and> find (\<lambda>n. Some (n_id n) = selectedNodeId) ns = Some selected
      \<and> snd (generateGraph w (ExpandPrompt g selected)) = Inr JsonNull
    \<longrightarrow> api_expand w fullGraph selectedNodeId
          = [GenerateContent (ExpandPrompt g selected),
             Respond 500 (ErrorBody (null_TypeError w))])
   \<and> (\<forall>e \<in> set (fst (saveGraphToNeo4j w (gd_nodes graph) (gd_edges graph))). \<not> is_response e)
   \<and> snd (saveGraphToNeo4j w (gd_nodes graph) (gd_edges graph))
       = (case session_throws w of Some message \<Rightarrow> Some message | None \<Rightarrow> close_rejects w)
   \<and> (session_throws w = None
    \<longrightarrow> (\<exists>tr. fst (saveGraphToNeo4j w (gd_nodes graph) (gd_edges graph))
                = SessionOpen # tr @ [SessionClose]))"
proof (intro conjI impI)
  assume "topic = Some t \<and> t \<noteq> []
      \<and> snd (generateGraph w (GeneratePrompt t)) = Inr (JsonObject graph)"
  then show "api_generate w topic
          = [GenerateContent (GeneratePrompt t)]
            @ fst (saveGraphToNeo4j w (gd_nodes graph) (gd_edges graph))
            @ [case snd (saveGraphToNeo4j w (gd_nodes graph) (gd_edges graph)) of
                 None \<Rightarrow> Respond 200 (GraphBody graph)
               | Some message \<Rightarrow> Respond 500 (ErrorBody message)]"
    by (simp add: api_generate_parsed)
next
  assume "topic = Some t \<and> t \<noteq> [] \<and> snd (generateGraph w (GeneratePrompt t)) = Inr JsonNull"
  then show "api_generate w topic
          = [GenerateContent (GeneratePrompt t), Respond 500 (ErrorBody (null_TypeError w))]"
    by (simp add: api_generate_parsed)
next
  assume a: "fullGraph = Some g \<and> gd_nodes g = Some ns \<and> \<not> falsy selectedNodeId
      \<and> find (\<lambda>n. Some (n_id n) = selectedNodeId) ns = Some selected
      \<and> snd (generateGraph w (ExpandPrompt g selected)) = Inr (JsonObject graph)"
  then have "snd (generateGraph w (ExpandPrompt g selected)) = Inr (JsonObject graph)"
    by simp
  with a api_expand_parsed [of fullGraph g ns selectedNodeId selected w]
  show "api_expand w fullGraph selectedNodeId
          = [GenerateContent (ExpandPrompt g selected)]
            @ fst (saveGraphToNeo4j w (gd_nodes graph) (gd_edges graph))
            @ [case snd (saveGraphToNeo4j w (gd_nodes graph) (gd_edges graph)) of
                 None \<Rightarrow> Respond 200 (GraphBody graph)
               | Some message \<Rightarrow> Respond 500 (ErrorBody message)]"
    by simp
next
  assume a: "fullGraph = Some g \<and> gd_nodes g = Some ns \<and> \<not> falsy selectedNodeId
      \<and> find (\<lambda>n. Some (n_id n) = selectedNodeId) ns = Some selected
      \<and> snd (generateGraph w (ExpandPrompt g selected)) = Inr JsonNull"
  then have "snd (generateGraph w (ExpandPrompt g selected)) = Inr JsonNull"
    by simp
  with a api_expand_parsed [of fullGraph g ns selectedNodeId selected w]
  show "api_expand w fullGraph selectedNodeId
          = [GenerateContent (ExpandPrompt g selected),
             Respond 500 (ErrorBody (null_TypeError w))]"
    by simp
next
  show "\<forall>e \<in> set (fst (saveGraphToNeo4j w (gd_nodes graph) (gd_edges graph))). \<not> is_response e"
    by (rule saveGraphToNeo4j_no_response)
next
  show "snd (saveGraphToNeo4j w (gd_nodes graph) (gd_edges graph))
       = (case session_throws w of Some message \<Rightarrow> Some message | None \<Rightarrow> close_rejects w)"
    by (rule saveGraphToNeo4j_outcome)
next
  assume "session_throws w = None"
  from saveGraphToNeo4j_shape [OF this, of "gd_nodes graph" "gd_edges graph"]
  show "\<exists>tr. fst (saveGraphToNeo4j w (gd_nodes graph) (gd_edges graph))
                = SessionOpen # tr @ [SessionClose]"
    by auto
qed

theorem handlers_respond_after_save_witness:
  "snd (generateGraph stub_env (GeneratePrompt ''Photosynthesis'')) = Inr (JsonObject photosynthesis)
   \<and> snd (generateGraph (stub_env\<lparr>JSON_parse := (\<lambda>text. Some JsonNull)\<rparr>)
              (GeneratePrompt ''Photosynthesis'')) = Inr JsonNull
   \<and> gd_nodes photosynthesis = Some [\<lparr>n_id = ''1'', n_label = ''Photosynthesis'', n_position = \<lparr>pos_x = 0, pos_y = 0\<rparr>\<rparr>]
   \<and> \<not> falsy (Some ''1'')
   \<and> find (\<lambda>n. Some (n_id n) = Some ''1'')
       [\<lparr>n_id = ''1'', n_label = ''Photosynthesis'', n_position = \<lparr>pos_x = 0, pos_y = 0\<rparr>\<rparr>]
       = Some \<lparr>n_id = ''1'', n_label = ''Photosynthesis'', n_position = \<lparr>pos_x = 0, pos_y = 0\<rparr>\<rparr>
   \<and> snd (generateGraph stub_env (ExpandPrompt photosynthesis
       \<lparr>n_id = ''1'', n_label = ''Photosynthesis'', n_position = \<lparr>pos_x = 0, pos_y = 0\<rparr>\<rparr>)) = Inr (JsonObject photosynthesis)
   \<and> session_throws stub_env = None
   \<and> close_rejects stub_env = None
   \<and> session_throws (stub_env\<lparr>close_rejects := Some ''closed''\<rparr>) = None
   \<and> api_generate stub_env (Some ''Photosynthesis'')
       = [GenerateContent (GeneratePrompt ''Photosynthesis'')]
         @ fst (saveGraphToNeo4j stub_env (gd_nodes photosynthesis) (gd_edges photosynthesis))
         @ [Respond 200 (GraphBody photosynthesis)]
   \<and> api_expand stub_env (Some photosynthesis) (Some ''1'')
       = [GenerateContent (ExpandPrompt photosynthesis \<lparr>n_id = ''1'', n_label = ''Photosynthesis'', n_position = \<lparr>pos_x = 0, pos_y = 0\<rparr>\<rparr>)]
         @ fst (saveGraphToNeo4j stub_env (gd_nodes photosynthesis) (gd_edges photosynthesis))
         @ [Respond 200 (GraphBody photosynthesis)]
   \<and> (\<exists>tr. fst (saveGraphToNeo4j stub_env (gd_nodes photosynthesis) (gd_edges photosynthesis))
              = SessionOpen # tr @ [SessionClose])
   \<and> api_generate (stub_env\<lparr>JSON_parse := (\<lambda>text. Some JsonNull)\<rparr>) (Some ''Photosynthesis'')
       = [GenerateContent (GeneratePrompt ''Photosynthesis''),
          Respond 500 (ErrorBody ''Cannot read properties of null'')]
   \<and> api_generate (stub_env\<lparr>close_rejects := Some ''closed''\<rparr>) (Some ''Photosynthesis'')
       = [GenerateContent (GeneratePrompt ''Photosynthesis'')]
         @ fst (saveGraphToNeo4j (stub_env\<lparr>close_rejects := Some ''closed''\<rparr>)
                 (gd_nodes photosynthesis) (gd_edges photosynthesis))
         @ [Respond 500 (ErrorBody ''closed'')]"
proof -
  have h1: "snd (generateGraph stub_env (GeneratePrompt ''Photosynthesis''))
        = Inr (JsonObject photosynthesis)"
    by (simp add: generateGraph_def stub_env_def)
  have h1n: "snd (generateGraph (stub_env\<lparr>JSON_parse := (\<lambda>text. Some JsonNull)\<rparr>)
              (GeneratePrompt ''Photosynthesis'')) = Inr JsonNull"
    by (simp add: generateGraph_def stub_env_def)
  have h1c: "snd (generateGraph (stub_env\<lparr>close_rejects := Some ''closed''\<rparr>)
              (GeneratePrompt ''Photosynthesis'')) = Inr (JsonObject photosynthesis)"
    by (simp add: generateGraph_def stub_env_def)
  have h2: "gd_nodes photosynthesis = Some [\<lparr>n_id = ''1'', n_label = ''Photosynthesis'', n_position = \<lparr>pos_x = 0, pos_y = 0\<rparr>\<rparr>]"
    by (simp add: photosynthesis_def)
  have h3: "\<not> falsy (Some ''1'')"
    by (simp add: falsy_def)
  have h4: "find (\<lambda>n. Some (n_id n) = Some ''1'')
      [\<lparr>n_id = ''1'', n_label = ''Photosynthesis'', n_position = \<lparr>pos_x = 0, pos_y = 0\<rparr>\<rparr>]
      = Some \<lparr>n_id = ''1'', n_label = ''Photosynthesis'', n_position = \<lparr>pos_x = 0, pos_y = 0\<rparr>\<rparr>"
    by simp
  have h5: "snd (generateGraph stub_env (ExpandPrompt photosynthesis
      \<lparr>n_id = ''1'', n_label = ''Photosynthesis'', n_position = \<lparr>pos_x = 0, pos_y = 0\<rparr>\<rparr>))
        = Inr (JsonObject photosynthesis)"
    by (simp add: generateGraph_def stub_env_def)
  have h6: "session_throws stub_env = None" "close_rejects stub_env = None"
    "session_throws (stub_env\<lparr>close_rejects := Some ''closed''\<rparr>) = None"
    "close_rejects (stub_env\<lparr>close_rejects := Some ''closed''\<rparr>) = Some ''closed''"
    "null_TypeError (stub_env\<lparr>JSON_parse := (\<lambda>text. Some JsonNull)\<rparr>)
       = ''Cannot read properties of null''"
    by (simp_all add: stub_env_def)
  note ok = handlers_respond_after_save
      [of "Some ''Photosynthesis''" "''Photosynthesis''" stub_env photosynthesis
          "Some photosynthesis" photosynthesis 
              "[\<lparr>n_id = ''1'', n_label = ''Photosynthesis'', n_position = \<lparr>pos_x = 0, pos_y = 0\<rparr>\<rparr>]"
              "Some ''1''"
              "\<lparr>n_id = ''1'', n_label = ''Photosynthesis'', n_position = \<lparr>pos_x = 0, pos_y = 0\<rparr>\<rparr>"]
  note null = handlers_respond_after_save
      [of "Some ''Photosynthesis''" "''Photosynthesis''"
          "stub_env\<lparr>JSON_parse := (\<lambda>text. Some JsonNull)\<rparr>" photosynthesis
          "Some photosynthesis" photosynthesis 
              "[\<lparr>n_id = ''1'', n_label = ''Photosynthesis'', n_position = \<lparr>pos_x = 0, pos_y = 0\<rparr>\<rparr>]"
              "Some ''1''"
              "\<lparr>n_id = ''1'', n_label = ''Photosynthesis'', n_position = \<lparr>pos_x = 0, pos_y = 0\<rparr>\<rparr>"]
  note closing = handlers_respond_after_save
      [of "Some ''Photosynthesis''" "''Photosynthesis''"
          "stub_env\<lparr>close_rejects := Some ''closed''\<rparr>" photosynthesis
          "Some photosynthesis" photosynthesis 
              "[\<lparr>n_id = ''1'', n_label = ''Photosynthesis'', n_position = \<lparr>pos_x = 0, pos_y = 0\<rparr>\<rparr>]"
              "Some ''1''"
              "\<lparr>n_id = ''1'', n_label = ''Photosynthesis'', n_position = \<lparr>pos_x = 0, pos_y = 0\<rparr>\<rparr>"]
  from ok h1 h2 h3 h4 h5 h6
  have a: "api_generate stub_env (Some ''Photosynthesis'')
       = [GenerateContent (GeneratePrompt ''Photosynthesis'')]
         @ fst (saveGraphToNeo4j stub_env (gd_nodes photosynthesis) (gd_edges photosynthesis))
         @ [Respond 200 (GraphBody photosynthesis)]"
    and b: "api_expand stub_env (Some photosynthesis) (Some ''1'')
       = [GenerateContent (ExpandPrompt photosynthesis \<lparr>n_id = ''1'', n_label = ''Photosynthesis'', n_position = \<lparr>pos_x = 0, pos_y = 0\<rparr>\<rparr>)]
         @ fst (saveGraphToNeo4j stub_env (gd_nodes photosynthesis) (gd_edges photosynthesis))
         @ [Respond 200 (GraphBody photosynthesis)]"
    and c: "\<exists>tr. fst (saveGraphToNeo4j stub_env (gd_nodes photosynthesis) (gd_edges photosynthesis))
              = SessionOpen # tr @ [SessionClose]"
    by simp_all
  from null h1n h6
  have d: "api_generate (stub_env\<lparr>JSON_parse := (\<lambda>text. Some JsonNull)\<rparr>) (Some ''Photosynthesis'')
       = [GenerateContent (GeneratePrompt ''Photosynthesis''),
          Respond 500 (ErrorBody ''Cannot read properties of null'')]"
    by simp
  from closing h1c h6
  have e: "api_generate (stub_env\<lparr>close_rejects := Some ''closed''\<rparr>) (Some ''Photosynthesis'')
       = [GenerateContent (GeneratePrompt ''Photosynthesis'')]
         @ fst (saveGraphToNeo4j (stub_env\<lparr>close_rejects := Some ''closed''\<rparr>)
                 (gd_nodes photosynthesis) (gd_edges photosynthesis))
         @ [Respond 500 (ErrorBody ''closed'')]"
    by simp
  from h1 h1n h2 h3 h4 h5 h6(1,2,3) a b c d e show ?thesis
    by (intro conjI)
qed

text \<open>
  C8. A failing embedding call degrades to the empty vector and aborts nothing:
  \<^verbatim>\<open>saveGraphToNeo4j\<close> behaves, step for step and in its outcome, as it would with an
  embedding model that never fails and returns the empty vector wherever the real one
  fails. Hence, when no database statement fails and every edge carries its label, the
  step, once its session is open, upserts every node, in order, with its embedding or
  with the empty vector where the embedding failed, and then every edge: a node whose
  embedding failed is persisted with a zero-length embedding, and the upserts after it
  still run. Without a session nothing is run, whatever the embeddings.
\<close>

theorem save_embedding_failure_degrades:
  "saveGraphToNeo4j w nds eds
     = saveGraphToNeo4j
         (w\<lparr>embed := (\<lambda>t. Some (case embed w t of None \<Rightarrow> [] | Some v \<Rightarrow> v))\<rparr>) nds eds
   \<and> ((\<forall>q. run_ok w q) \<and> (\<forall>e \<in> set es. e_label e \<noteq> None)
      \<longrightarrow> runs (fst (saveGraphToNeo4j w (Some ns) (Some es)))
           = (case session_throws w of
                Some message \<Rightarrow> []
              | None \<Rightarrow>
                  map (\<lambda>n. MergeConcept (n_id n) (n_label n)
                             (case embed w (n_label n) of None \<Rightarrow> [] | Some v \<Rightarrow> v)) ns
                  @ List.map_filter
                      (\<lambda>e. map_option (MergeRelatesTo (e_source e) (e_target e) (e_id e))
                             (e_label e))
                      es))"
proof (intro conjI impI)
  show "saveGraphToNeo4j w nds eds
     = saveGraphToNeo4j
         (w\<lparr>embed := (\<lambda>t. Some (case embed w t of None \<Rightarrow> [] | Some v \<Rightarrow> v))\<rparr>) nds eds"
  proof -
    let ?w = "w\<lparr>embed := (\<lambda>t. Some (case embed w t of None \<Rightarrow> [] | Some v \<Rightarrow> v))\<rparr>"
    have sel: "session_throws ?w = session_throws w" "close_rejects ?w = close_rejects w"
      by simp_all
    show ?thesis
      by (simp only: saveGraphToNeo4j_def sel save_nodes_total_embed
          save_edges_embed_irrelevant)
  qed
next
  assume a: "(\<forall>q. run_ok w q) \<and> (\<forall>e \<in> set es. e_label e \<noteq> None)"
  obtain tr fin where sn: "save_nodes w ns = (tr, fin)" by (cases "save_nodes w ns")
  from a save_nodes_all_ok [of w ns] sn
  have fin: "fin = True" and tr: "runs tr = map (\<lambda>n. MergeConcept (n_id n) (n_label n)
                        (case embed w (n_label n) of None \<Rightarrow> [] | Some v \<Rightarrow> v)) ns"
    by simp_all
  from a have es: "runs (save_edges w es)
     = List.map_filter
         (\<lambda>e. map_option (MergeRelatesTo (e_source e) (e_target e) (e_id e)) (e_label e)) es"
    by (simp add: save_edges_all_ok)
  show "runs (fst (saveGraphToNeo4j w (Some ns) (Some es)))
           = (case session_throws w of
                Some message \<Rightarrow> []
              | None \<Rightarrow>
                  map (\<lambda>n. MergeConcept (n_id n) (n_label n)
                             (case embed w (n_label n) of None \<Rightarrow> [] | Some v \<Rightarrow> v)) ns
                  @ List.map_filter
                      (\<lambda>e. map_option (MergeRelatesTo (e_source e) (e_target e) (e_id e))
                             (e_label e))
                      es)"
    by (simp add: saveGraphToNeo4j_def sn fin runs_append tr es split: option.split)
qed

theorem save_embedding_failure_degrades_witness:
  "(\<forall>q. run_ok stub_env q)
   \<and> e_label \<lparr>e_id = ''edge-1-2'', e_source = ''1'', e_target = ''2'', e_label = Some ''needs''\<rparr>
       \<noteq> None
   \<and> embed stub_env ''Photosynthesis'' = None
   \<and> runs (fst (saveGraphToNeo4j stub_env
        (Some [\<lparr>n_id = ''1'', n_label = ''Photosynthesis'', n_position = \<lparr>pos_x = 0, pos_y = 0\<rparr>\<rparr>,
               \<lparr>n_id = ''2'', n_label = ''Light'', n_position = \<lparr>pos_x = 0, pos_y = 0\<rparr>\<rparr>])
        (Some [\<lparr>e_id = ''edge-1-2'', e_source = ''1'', e_target = ''2'', e_label = Some ''needs''\<rparr>])))
     = [MergeConcept ''1'' ''Photosynthesis'' [], MergeConcept ''2'' ''Light'' [],
        MergeRelatesTo ''1'' ''2'' ''edge-1-2'' ''needs'']"
proof -
  let ?es = "[\<lparr>e_id = ''edge-1-2'', e_source = ''1'', e_target = ''2'', e_label = Some ''needs''\<rparr>]"
  let ?ns = "[\<lparr>n_id = ''1'', n_label = ''Photosynthesis'', n_position = \<lparr>pos_x = 0, pos_y = 0\<rparr>\<rparr>,
              \<lparr>n_id = ''2'', n_label = ''Light'', n_position = \<lparr>pos_x = 0, pos_y = 0\<rparr>\<rparr>]"
  have ok: "\<forall>q. run_ok stub_env q"
    by (simp add: stub_env_def)
  have labelled: "\<forall>e \<in> set ?es. e_label e \<noteq> None"
    by simp
  have failing: "embed stub_env ''Photosynthesis'' = None" "embed stub_env ''Light'' = None"
    "session_throws stub_env = None"
    by (simp_all add: stub_env_def)
  from save_embedding_failure_degrades [of stub_env None None ?es ?ns] ok labelled
  have "runs (fst (saveGraphToNeo4j stub_env (Some ?ns) (Some ?es)))
      = (case session_throws stub_env of
           Some message \<Rightarrow> []
         | None \<Rightarrow>
             map (\<lambda>n. MergeConcept (n_id n) (n_label n)
                   (case embed stub_env (n_label n) of None \<Rightarrow> [] | Some v \<Rightarrow> v)) ?ns
             @ List.map_filter
                 (\<lambda>e. map_option (MergeRelatesTo (e_source e) (e_target e) (e_id e)) (e_label e))
                 ?es)"
    by blast
  with ok failing show ?thesis
    by (simp add: List.map_filter_simps)
qed

section \<open>Properties of the load path\<close>

lemma put_subset: "set (put key v obj) \<subseteq> insert (key, v) (set obj)"
  by (induction obj) auto

lemma put_keys: "fst ` set (put key v obj) = insert key (fst ` set obj)"
  by (induction obj) auto

lemma assign_subset: "set (assign key v obj) \<subseteq> insert (key, v) (set obj)"
  using put_subset [of key v obj] by (auto simp: assign_def)

lemma assign_keys:
  "fst ` set (assign key v obj)
     = (if key = ''__proto__'' then fst ` set obj else insert key (fst ` set obj))"
  by (simp add: assign_def put_keys)

lemma set_Object_values: "set (Object_values obj) = snd ` set obj"
proof -
  have "set (Object_values obj)
      = snd ` ({p \<in> set obj. array_index (fst p) \<noteq> None}
               \<union> {p \<in> set obj. array_index (fst p) = None})"
    by (simp add: Object_values_def image_Un)
  also have "{p \<in> set obj. array_index (fst p) \<noteq> None}
               \<union> {p \<in> set obj. array_index (fst p) = None} = set obj"
    by auto
  finally show ?thesis .
qed

lemma forEach_record_node_keys:
  "fst ` set (fst (forEach_record rnd k recs (nodesObj, edgesObj)))
     = fst ` set nodesObj \<union> ((\<lambda>rec. c_id (fst rec)) ` set recs - {''__proto__''})"
proof (induction recs arbitrary: k nodesObj edgesObj)
  case Nil
  show ?case by simp
next
  case (Cons a recs)
  obtain n r m where a: "a = (n, r, m)" by (cases a)
  show ?case
    unfolding a forEach_record.simps Let_def Cons.IH
    by (auto simp: assign_keys)
qed

lemma forEach_record_nodes_keyed:
  assumes "\<forall>p \<in> set nodesObj. n_id (snd p) = fst p"
  shows "\<forall>p \<in> set (fst (forEach_record rnd k recs (nodesObj, edgesObj))). n_id (snd p) = fst p"
  using assms
proof (induction recs arbitrary: k nodesObj edgesObj)
  case Nil
  then show ?case by simp
next
  case (Cons a recs)
  obtain n r m where a: "a = (n, r, m)" by (cases a)
  let ?v = "\<lparr>n_id = c_id n, n_label = c_label n,
               n_position = \<lparr>pos_x = rnd k * 500, pos_y = rnd (k + 1) * 500\<rparr>\<rparr>"
  have "\<forall>p \<in> set (assign (c_id n) ?v nodesObj). n_id (snd p) = fst p"
    using Cons.prems assign_subset [of "c_id n" ?v nodesObj] by auto
  then show ?case
    unfolding a forEach_record.simps Let_def
    by (rule Cons.IH)
qed

lemma forEach_record_edges_origin:
  assumes "p \<in> set (snd (forEach_record rnd k recs (nodesObj, edgesObj)))"
  shows "p \<in> set edgesObj
     \<or> (\<exists>n r m. (n, Some r, Some m) \<in> set recs
           \<and> e_source (snd p) = js_or (r_source r) (c_id n)
           \<and> e_target (snd p) = js_or (r_target r) (c_id m))"
  using assms
proof (induction recs arbitrary: k nodesObj edgesObj)
  case Nil
  then show ?case by simp
next
  case (Cons a recs)
  obtain n r m where a: "a = (n, r, m)" by (cases a)
  let ?no = "assign (c_id n)
              \<lparr>n_id = c_id n, n_label = c_label n,
               n_position = \<lparr>pos_x = rnd k * 500, pos_y = rnd (k + 1) * 500\<rparr>\<rparr> nodesObj"
  let ?eo = "case (r, m) of
               (Some r, Some m) \<Rightarrow>
                 assign (r_id r)
                   \<lparr>e_id = r_id r,
                    e_source = js_or (r_source r) (c_id n),
                    e_target = js_or (r_target r) (c_id m),
                    e_label = Some (r_label r)\<rparr> edgesObj
             | _ \<Rightarrow> edgesObj"
  from Cons.prems have "p \<in> set (snd (forEach_record rnd (k + 2) recs (?no, ?eo)))"
    unfolding a forEach_record.simps Let_def .
  from Cons.IH [OF this]
  consider "p \<in> set ?eo"
    | "\<exists>n r m. (n, Some r, Some m) \<in> set recs
           \<and> e_source (snd p) = js_or (r_source r) (c_id n)
           \<and> e_target (snd p) = js_or (r_target r) (c_id m)"
    by blast
  then show ?case
  proof cases
    case 2
    then show ?thesis by auto
  next
    case 1
    show ?thesis
    proof (cases r)
      case None
      with 1 show ?thesis by simp
    next
      case (Some rel)
      show ?thesis
      proof (cases m)
        case None
        with 1 Some show ?thesis by simp
      next
        case (Some tgt)
        let ?e = "\<lparr>e_id = r_id rel,
                    e_source = js_or (r_source rel) (c_id n),
                    e_target = js_or (r_target rel) (c_id tgt),
                    e_label = Some (r_label rel)\<rparr>"
        from 1 \<open>r = Some rel\<close> Some have "p \<in> set (assign (r_id rel) ?e edgesObj)"
          by simp
        with assign_subset [of "r_id rel" ?e edgesObj]
        have "p = (r_id rel, ?e) \<or> p \<in> set edgesObj" by auto
        then show ?thesis
        proof
          assume "p \<in> set edgesObj"
          then show ?thesis by simp
        next
          assume "p = (r_id rel, ?e)"
          with a \<open>r = Some rel\<close> Some show ?thesis
            by (intro disjI2 exI [of _ n] exI [of _ rel] exI [of _ tgt]) simp
        qed
      qed
    qed
  qed
qed

lemma js_or_falsy: "falsy a \<Longrightarrow> js_or a b = b"
  by (simp add: js_or_def)

text \<open>
  A \<^verbatim>\<open>Concept\<close> whose id is \<^verbatim>\<open>__proto__\<close> is not listed among the nodes, while the
  edge that starts at it is.
\<close>

lemma all_graph_proto_key:
  "all_graph (\<lambda>k. 0)
     [(\<lparr>c_id = ''__proto__'', c_label = ''P''\<rparr>,
       Some (saved_relationship ''e'' ''to''),
       Some \<lparr>c_id = ''b'', c_label = ''B''\<rparr>),
      (\<lparr>c_id = ''b'', c_label = ''B''\<rparr>, None, None)]
   = \<lparr>gd_nodes = Some [\<lparr>n_id = ''b'', n_label = ''B'', n_position = \<lparr>pos_x = 0, pos_y = 0\<rparr>\<rparr>],
      gd_edges = Some [\<lparr>e_id = ''e'', e_source = ''__proto__'', e_target = ''b'',
                         e_label = Some ''to''\<rparr>]\<rparr>"
  by (simp add: all_graph_def assign_def saved_relationship_def js_or_def falsy_def
      Object_values_def array_index_def digit_def)

section \<open>Claim about the load path\<close>

text \<open>
  C9, as the claim states it, fails: the handler takes the source of an edge from
  \<^verbatim>\<open>relationship.properties.source || node.properties.id\<close>, so a \<^verbatim>\<open>source\<close> property
  that the relationship stores wins over the id of the matched node. With a relationship
  from node 1 to node 2 that stores the source \<^verbatim>\<open>ghost\<close>, the response holds the nodes
  1 and 2 and an edge whose source is \<^verbatim>\<open>ghost\<close>.
\<close>

theorem neo4j_all_stored_source_counterexample:
  "api_neo4j_all stub_env_stored_source
     = [SessionOpen, Run MatchAll,
        Respond 200 (GraphBody
          \<lparr>gd_nodes = Some 
              [\<lparr>n_id = ''1'', n_label = ''Photosynthesis'', n_position = \<lparr>pos_x = 0, pos_y = 0\<rparr>\<rparr>,
               \<lparr>n_id = ''2'', n_label = ''Light'', n_position = \<lparr>pos_x = 0, pos_y = 0\<rparr>\<rparr>],
           gd_edges = Some [\<lparr>e_id = ''edge-1-2'', e_source = ''ghost'', e_target = ''2'',
                              e_label = Some ''needs''\<rparr>]\<rparr>),
        SessionClose]
   \<and> ''ghost'' \<notin> set (map n_id 
       [\<lparr>n_id = ''1'', n_label = ''Photosynthesis'', n_position = \<lparr>pos_x = 0, pos_y = 0\<rparr>\<rparr>,
        \<lparr>n_id = ''2'', n_label = ''Light'', n_position = \<lparr>pos_x = 0, pos_y = 0\<rparr>\<rparr>])"
  by (simp add: api_neo4j_all_def all_graph_def stub_env_stored_source_def stub_env_def
      assign_def js_or_def falsy_def Object_values_def array_index_def digit_def)

text \<open>
  C9, amended. The records are those of
  \<^verbatim>\<open>MATCH (n:Concept) OPTIONAL MATCH (n)-[r]->(m:Concept) RETURN n, r, m\<close>: every
  target \<^verbatim>\<open>m\<close> is a \<^verbatim>\<open>Concept\<close> and so is the \<^verbatim>\<open>n\<close> of some record. When the session
  opens, the response is 200 with node and edge lists in which every edge comes from a
  record with a relationship: its source is the \<^verbatim>\<open>source\<close> property of the relationship
  if that is present and not empty and the id of the matched node \<^verbatim>\<open>n\<close> otherwise, its
  target the \<^verbatim>\<open>target\<close> property or else the id of the matched node \<^verbatim>\<open>m\<close>. An end that
  falls back to the id of its matched node, with that id other than \<^verbatim>\<open>__proto__\<close>, is the
  id of a node of the same response.
\<close>

theorem neo4j_all_edge_endpoints:
  assumes "session_throws w = None" and "match_all w = Some recs"
    and "\<forall>(n, r, m) \<in> set recs. \<forall>tgt. m = Some tgt
            \<longrightarrow> c_id tgt \<in> (\<lambda>rec. c_id (fst rec)) ` set recs"
  shows "\<exists>ns es. api_neo4j_all w
            = [SessionOpen, Run MatchAll,
               Respond 200 (GraphBody \<lparr>gd_nodes = Some ns, gd_edges = Some es\<rparr>),
               SessionClose]
              @ (case close_rejects w of None \<Rightarrow> [] | Some message \<Rightarrow> [Uncaught])
         \<and> (\<forall>e \<in> set es.
               \<exists>n r m. (n, Some r, Some m) \<in> set recs
                   \<and> e_source e = js_or (r_source r) (c_id n)
                   \<and> e_target e = js_or (r_target r) (c_id m)
                   \<and> (falsy (r_source r) \<and> c_id n \<noteq> ''__proto__''
                        \<longrightarrow> e_source e = c_id n \<and> e_source e \<in> n_id ` set ns)
                   \<and> (falsy (r_target r) \<and> c_id m \<noteq> ''__proto__''
                        \<longrightarrow> e_target e = c_id m \<and> e_target e \<in> n_id ` set ns))"
proof -
  obtain no eo where fe: "forEach_record (random w) 0 recs ([], []) = (no, eo)"
    by (cases "forEach_record (random w) 0 recs ([], [])")
  have keys: "fst ` set no = (\<lambda>rec. c_id (fst rec)) ` set recs - {''__proto__''}"
    using forEach_record_node_keys [of "random w" 0 recs "[]" "[]"] fe by simp
  have keyed: "\<forall>p \<in> set no. n_id (snd p) = fst p"
    using forEach_record_nodes_keyed [of "[]" "random w" 0 recs "[]"] fe by simp
  then have ids: "n_id ` set (Object_values no)
      = (\<lambda>rec. c_id (fst rec)) ` set recs - {''__proto__''}"
    unfolding set_Object_values keys [symmetric] by force
  have edge: "\<exists>n r m. (n, Some r, Some m) \<in> set recs
                   \<and> e_source e = js_or (r_source r) (c_id n)
                   \<and> e_target e = js_or (r_target r) (c_id m)
                   \<and> (falsy (r_source r) \<and> c_id n \<noteq> ''__proto__''
                        \<longrightarrow> e_source e = c_id n
                            \<and> e_source e \<in> n_id ` set (Object_values no))
                   \<and> (falsy (r_target r) \<and> c_id m \<noteq> ''__proto__''
                        \<longrightarrow> e_target e = c_id m
                            \<and> e_target e \<in> n_id ` set (Object_values no))"
    if "e \<in> set (Object_values eo)" for e
  proof -
    from that obtain p where p: "p \<in> set eo" "e = snd p"
      by (auto simp: set_Object_values)
    from forEach_record_edges_origin [of p "random w" 0 recs "[]" "[]"] p fe
    obtain n r m where nrm: "(n, Some r, Some m) \<in> set recs"
      "e_source e = js_or (r_source r) (c_id n)" "e_target e = js_or (r_target r) (c_id m)"
      by auto
    from nrm(1) have src: "c_id n \<in> (\<lambda>rec. c_id (fst rec)) ` set recs" by force
    from assms(3) nrm(1) have tgt: "c_id m \<in> (\<lambda>rec. c_id (fst rec)) ` set recs"
      by fastforce
    have "falsy (r_source r) \<and> c_id n \<noteq> ''__proto__''
            \<longrightarrow> e_source e = c_id n \<and> e_source e \<in> n_id ` set (Object_values no)"
      using nrm(2) src ids by (simp add: js_or_falsy)
    moreover have "falsy (r_target r) \<and> c_id m \<noteq> ''__proto__''
            \<longrightarrow> e_target e = c_id m \<and> e_target e \<in> n_id ` set (Object_values no)"
      using nrm(3) tgt ids by (simp add: js_or_falsy)
    ultimately show ?thesis using nrm by blast
  qed
  have "api_neo4j_all w
            = [SessionOpen, Run MatchAll,
               Respond 200 (GraphBody \<lparr>gd_nodes = Some (Object_values no),
                                       gd_edges = Some (Object_values eo)\<rparr>),
               SessionClose]
              @ (case close_rejects w of None \<Rightarrow> [] | Some message \<Rightarrow> [Uncaught])"
    by (simp add: api_neo4j_all_def assms(1,2) all_graph_def fe)
  with edge show ?thesis by blast
qed

theorem neo4j_all_edge_endpoints_witness:
  "session_throws stub_env = None
   \<and> close_rejects stub_env = None
   \<and> match_all stub_env
     = Some [(\<lparr>c_id = ''1'', c_label = ''Photosynthesis''\<rparr>,
         Some (saved_relationship ''edge-1-2'' ''needs''),
         Some \<lparr>c_id = ''2'', c_label = ''Light''\<rparr>),
             (\<lparr>c_id = ''2'', c_label = ''Light''\<rparr>, None, None)]
   \<and> falsy (r_source (saved_relationship ''edge-1-2'' ''needs''))
   \<and> falsy (r_target (saved_relationship ''edge-1-2'' ''needs''))
   \<and> api_neo4j_all stub_env
     = [SessionOpen, Run MatchAll,
        Respond 200 (GraphBody
          \<lparr>gd_nodes = Some 
              [\<lparr>n_id = ''1'', n_label = ''Photosynthesis'', n_position = \<lparr>pos_x = 0, pos_y = 0\<rparr>\<rparr>,
               \<lparr>n_id = ''2'', n_label = ''Light'', n_position = \<lparr>pos_x = 0, pos_y = 0\<rparr>\<rparr>],
           gd_edges = Some [\<lparr>e_id = ''edge-1-2'', e_source = ''1'', e_target = ''2'',
                              e_label = Some ''needs''\<rparr>]\<rparr>),
        SessionClose]
   \<and> (\<exists>ns es. api_neo4j_all stub_env
            = [SessionOpen, Run MatchAll,
               Respond 200 (GraphBody \<lparr>gd_nodes = Some ns, gd_edges = Some es\<rparr>),
               SessionClose]
         \<and> (\<forall>e \<in> set es. e_source e \<in> n_id ` set ns \<and> e_target e \<in> n_id ` set ns))"
proof -
  let ?recs = "[(\<lparr>c_id = ''1'', c_label = ''Photosynthesis''\<rparr>,
      Some (saved_relationship ''edge-1-2'' ''needs''),
      Some \<lparr>c_id = ''2'', c_label = ''Light''\<rparr>),
             (\<lparr>c_id = ''2'', c_label = ''Light''\<rparr>, None, None)]"
  have h0: "session_throws stub_env = None" "close_rejects stub_env = None"
    by (simp_all add: stub_env_def)
  have h1: "match_all stub_env = Some ?recs"
    by (simp add: stub_env_def)
  have h2: "\<forall>(n, r, m) \<in> set ?recs. \<forall>tgt. m = Some tgt
            \<longrightarrow> c_id tgt \<in> (\<lambda>rec. c_id (fst rec)) ` set ?recs"
    by simp
  have h3: "falsy (r_source (saved_relationship ''edge-1-2'' ''needs''))"
    "falsy (r_target (saved_relationship ''edge-1-2'' ''needs''))"
    by (simp_all add: falsy_def saved_relationship_def)
  have run: "api_neo4j_all stub_env
     = [SessionOpen, Run MatchAll,
        Respond 200 (GraphBody
          \<lparr>gd_nodes = Some 
              [\<lparr>n_id = ''1'', n_label = ''Photosynthesis'', n_position = \<lparr>pos_x = 0, pos_y = 0\<rparr>\<rparr>,
               \<lparr>n_id = ''2'', n_label = ''Light'', n_position = \<lparr>pos_x = 0, pos_y = 0\<rparr>\<rparr>],
           gd_edges = Some [\<lparr>e_id = ''edge-1-2'', e_source = ''1'', e_target = ''2'',
                              e_label = Some ''needs''\<rparr>]\<rparr>),
        SessionClose]"
    by (simp add: api_neo4j_all_def all_graph_def stub_env_def saved_relationship_def
        assign_def js_or_def falsy_def Object_values_def array_index_def digit_def)
  from neo4j_all_edge_endpoints [OF h0(1) h1 h2]
  obtain ns es where res: "api_neo4j_all stub_env
            = [SessionOpen, Run MatchAll,
               Respond 200 (GraphBody \<lparr>gd_nodes = Some ns, gd_edges = Some es\<rparr>),
               SessionClose]
              @ (case close_rejects stub_env of None \<Rightarrow> [] | Some message \<Rightarrow> [Uncaught])"
    and ends: "\<forall>e \<in> set es.
               \<exists>n r m. (n, Some r, Some m) \<in> set ?recs
                   \<and> e_source e = js_or (r_source r) (c_id n)
                   \<and> e_target e = js_or (r_target r) (c_id m)
                   \<and> (falsy (r_source r) \<and> c_id n \<noteq> ''__proto__''
                        \<longrightarrow> e_source e = c_id n \<and> e_source e \<in> n_id ` set ns)
                   \<and> (falsy (r_target r) \<and> c_id m \<noteq> ''__proto__''
                        \<longrightarrow> e_target e = c_id m \<and> e_target e \<in> n_id ` set ns)"
    by blast
  have "e_source e \<in> n_id ` set ns \<and> e_target e \<in> n_id ` set ns" if "e \<in> set es" for e
  proof -
    from ends that obtain n r m where nrm: "(n, Some r, Some m) \<in> set ?recs"
      and s: "falsy (r_source r) \<and> c_id n \<noteq> ''__proto__''
                        \<longrightarrow> e_source e = c_id n \<and> e_source e \<in> n_id ` set ns"
      and t: "falsy (r_target r) \<and> c_id m \<noteq> ''__proto__''
                        \<longrightarrow> e_target e = c_id m \<and> e_target e \<in> n_id ` set ns"
      by blast
    from nrm have r: "r = saved_relationship ''edge-1-2'' ''needs''"
      and n: "c_id n \<noteq> ''__proto__''" and m: "c_id m \<noteq> ''__proto__''"
      by auto
    from s r h3(1) n have "e_source e \<in> n_id ` set ns" by blast
    moreover from t r h3(2) m have "e_target e \<in> n_id ` set ns" by blast
    ultimately show ?thesis by blast
  qed
  with res h0 have "\<exists>ns es. api_neo4j_all stub_env
            = [SessionOpen, Run MatchAll,
               Respond 200 (GraphBody \<lparr>gd_nodes = Some ns, gd_edges = Some es\<rparr>),
               SessionClose]
         \<and> (\<forall>e \<in> set es. e_source e \<in> n_id ` set ns \<and> e_target e \<in> n_id ` set ns)"
    by auto
  with h0 h1 h3 run show ?thesis by (intro conjI)
qed

section \<open>Claim about the 3D renderer\<close>

lemma create_edges_closed_form:
  "create_edges meshes es
     = Inr (concat (map (\<lambda>e.
         case (find (\<lambda>m. userData_nodeId m = e_source e) meshes,
               find (\<lambda>m. userData_nodeId m = e_target e) meshes) of
           (Some s, Some t) \<Rightarrow> [(mesh_position s, mesh_position t)]
         | _ \<Rightarrow> []) es))"
  by (induction es) (auto simp: position_of_def Let_def split: option.splits)

lemma find_id_None:
  "(find (\<lambda>m. userData_nodeId m = i) meshes = None) = (i \<notin> userData_nodeId ` set meshes)"
  by (auto simp: find_None_iff)

lemma lines_count:
  "length (concat (map (\<lambda>e.
         case (find (\<lambda>m. userData_nodeId m = e_source e) meshes,
               find (\<lambda>m. userData_nodeId m = e_target e) meshes) of
           (Some s, Some t) \<Rightarrow> [(mesh_position s, mesh_position t)]
         | _ \<Rightarrow> []) es))
   = length (filter (\<lambda>e. e_source e \<in> userData_nodeId ` set meshes
                        \<and> e_target e \<in> userData_nodeId ` set meshes) es)"
proof (induction es)
  case Nil
  show ?case by simp
next
  case (Cons e es)
  show ?case
  proof (cases "find (\<lambda>m. userData_nodeId m = e_source e) meshes")
    case None
    with Cons.IH find_id_None [of "e_source e" meshes] show ?thesis by simp
  next
    case (Some s)
    with find_id_None [of "e_source e" meshes]
    have src: "e_source e \<in> userData_nodeId ` set meshes" by simp
    show ?thesis
    proof (cases "find (\<lambda>m. userData_nodeId m = e_target e) meshes")
      case None
      with Cons.IH find_id_None [of "e_target e" meshes] \<open>find _ meshes = Some s\<close>
      show ?thesis by simp
    next
      case (Some t)
      with find_id_None [of "e_target e" meshes]
      have "e_target e \<in> userData_nodeId ` set meshes" by simp
      with src Cons.IH Some \<open>find _ meshes = Some s\<close> show ?thesis by simp
    qed
  qed
qed

lemma nodeMeshes_ids: "userData_nodeId ` set (nodeMeshes ns) = n_id ` set ns"
  by (simp add: nodeMeshes_def image_image)

text \<open>
  C10. For every input graph and whatever nodes the layout returns, the edge pass of the
  3D renderer ends without an error: it never reads the position of a mesh that
  \<^verbatim>\<open>find\<close> did not return. It adds one line per edge whose source and target both have
  a mesh, from the position of the first mesh with the source id to that of the first
  mesh with the target id, and nothing for any other edge; so the number of lines is the
  number of edges with both endpoints among the layouted nodes.
\<close>

theorem GraphCanvas3D_skips_dangling_edges:
  "GraphCanvas3D_edges getLayoutedElements nds eds
     = Inr (concat (map (\<lambda>e.
         case (find (\<lambda>m. userData_nodeId m = e_source e)
                 (nodeMeshes (fst (getLayoutedElements nds eds ''LR''))),
               find (\<lambda>m. userData_nodeId m = e_target e)
                 (nodeMeshes (fst (getLayoutedElements nds eds ''LR'')))) of
           (Some s, Some t) \<Rightarrow> [(mesh_position s, mesh_position t)]
         | _ \<Rightarrow> []) eds))
   \<and> (\<exists>lines. GraphCanvas3D_edges getLayoutedElements nds eds = Inr lines
        \<and> length lines
           = length (filter (\<lambda>e. e_source e \<in> n_id ` set (fst (getLayoutedElements nds eds ''LR''))
                                \<and> e_target e \<in> n_id ` set (fst (getLayoutedElements nds eds ''LR'')))
                       eds))"
proof -
  let ?meshes = "nodeMeshes (fst (getLayoutedElements nds eds ''LR''))"
  have run: "GraphCanvas3D_edges getLayoutedElements nds eds
     = Inr (concat (map (\<lambda>e.
         case (find (\<lambda>m. userData_nodeId m = e_source e) ?meshes,
               find (\<lambda>m. userData_nodeId m = e_target e) ?meshes) of
           (Some s, Some t) \<Rightarrow> [(mesh_position s, mesh_position t)]
         | _ \<Rightarrow> []) eds))"
    unfolding GraphCanvas3D_edges_def by (rule create_edges_closed_form)
  from run lines_count [of ?meshes eds, unfolded nodeMeshes_ids] show ?thesis
    by blast
qed

theorem GraphCanvas3D_skips_dangling_edges_witness:
  "GraphCanvas3D_edges (\<lambda>ns es direction. (ns, es))
     [\<lparr>n_id = ''1'', n_label = ''Photosynthesis'', n_position = \<lparr>pos_x = 10, pos_y = 20\<rparr>\<rparr>,
      \<lparr>n_id = ''2'', n_label = ''Light'', n_position = \<lparr>pos_x = 30, pos_y = 40\<rparr>\<rparr>]
     [\<lparr>e_id = ''edge-1-9'', e_source = ''1'', e_target = ''9'', e_label = Some ''dangling''\<rparr>,
      \<lparr>e_id = ''edge-1-2'', e_source = ''1'', e_target = ''2'', e_label = Some ''needs''\<rparr>]
   = Inr [((8, 16, 0), (24, 32, 0))]"
  using GraphCanvas3D_skips_dangling_edges
    [of "\<lambda>ns es direction. (ns, es)"
        "[\<lparr>n_id = ''1'', n_label = ''Photosynthesis'', n_position = \<lparr>pos_x = 10, pos_y = 20\<rparr>\<rparr>,
          \<lparr>n_id = ''2'', n_label = ''Light'', n_position = \<lparr>pos_x = 30, pos_y = 40\<rparr>\<rparr>]"
        "[\<lparr>e_id = ''edge-1-9'', e_source = ''1'', e_target = ''9'', e_label = Some ''dangling''\<rparr>,
          \<lparr>e_id = ''edge-1-2'', e_source = ''1'', e_target = ''2'', e_label = Some ''needs''\<rparr>]"]
  by (simp add: nodeMeshes_def)


end
